theory Spec2Isabelle
  imports Complex_Main "HOL-Library.Log_Nat" "HOL-Library.Multiset"
begin

section \<open>JavaScript values used by the game server\<close>

subsection \<open>Strings\<close>

text \<open>
  A JavaScript string is a sequence of UTF-16 code units. The model uses HOL strings, whose
  characters are the code units 0 to 255 (Basic Latin and Latin-1 Supplement, which hold the
  German alphabet \<open>a\<close> to \<open>z\<close>, the umlauts and the sharp s). \<open>length\<close> is
  \<open>String.length\<close>, \<open>charCodeAt\<close> is \<open>of_char\<close>.
\<close>

definition charCodeAt :: "char \<Rightarrow> int" where
  "charCodeAt c = of_char c"

text \<open>
  \<open>String.prototype.toLowerCase\<close> on this repertoire: the letters \<open>A\<close> to \<open>Z\<close>
  (65 to 90) and the Latin-1 capitals 192 to 222 except the multiplication sign 215 move up by
  32; every other code unit is its own lower case.
\<close>

definition lowerChar :: "char \<Rightarrow> char" where
  "lowerChar c = (let n = (of_char c :: nat) in
     if (65 \<le> n \<and> n \<le> 90) \<or> (192 \<le> n \<and> n \<le> 222 \<and> n \<noteq> 215)
     then char_of (n + 32) else c)"

definition toLowerCase :: "string \<Rightarrow> string" where
  "toLowerCase s = map lowerChar s"

text \<open>
  \<open>String.prototype.trim\<close> removes white space and line terminators from both ends. On
  this repertoire these are the code units 9, 10, 11, 12, 13, 32 and 160.
\<close>

definition isWhiteSpace :: "char \<Rightarrow> bool" where
  "isWhiteSpace c = ((of_char c :: nat) \<in> {9, 10, 11, 12, 13, 32, 160})"

definition trim :: "string \<Rightarrow> string" where
  "trim s = rev (dropWhile isWhiteSpace (rev (dropWhile isWhiteSpace s)))"

text \<open>
  Where a result depends on code units outside this repertoire, a string is the list of its
  code units, each a number below 65536; \<open>codeUnits\<close> reads a string of the repertoire as
  such a list. \<open>toLowerCase\<close> maps a string code point by code point. One code unit has a
  lower case of two code units: U+0130 (304), the capital I with a dot above, becomes
  \<open>i\<close> (105) followed by the combining dot above (775). The lower case of every other code
  unit, and of every pair of surrogates, has as many code units as the original.
  \<open>toLowerCaseUnits\<close> lists the mappings of the Latin-1 range, as \<open>lowerChar\<close> does, and
  that of U+0130, and leaves every other code unit in its place: it gives the lower-cased
  string its number of code units, which is all that the classifier below reads of it.
\<close>

definition codeUnits :: "string \<Rightarrow> nat list" where
  "codeUnits s = map of_char s"

definition lowerUnit :: "nat \<Rightarrow> nat list" where
  "lowerUnit u = (if u = 304 then [105, 775]
     else if (65 \<le> u \<and> u \<le> 90) \<or> (192 \<le> u \<and> u \<le> 222 \<and> u \<noteq> 215) then [u + 32]
     else [u])"

definition toLowerCaseUnits :: "nat list \<Rightarrow> nat list" where
  "toLowerCaseUnits s = concat (map lowerUnit s)"

subsection \<open>Numbers\<close>

text \<open>
  A JavaScript number is an IEEE 754 binary64 value. Integers below \<open>2^53\<close> in magnitude
  are exact, so counts, lengths and the integer hash arithmetic are modelled on \<open>nat\<close> and
  \<open>int\<close>. A division or a multiplication by a fraction rounds its exact result to the
  nearest value with a 53-bit significand, ties to the even significand; \<open>binary64\<close> is
  that rounding on the rationals (for magnitudes in the normal range, which is where every
  value computed here lies).
\<close>

definition roundTiesToEven :: "rat \<Rightarrow> int" where
  "roundTiesToEven q = (let f = \<lfloor>q\<rfloor>; r = q - of_int f in
     if r < 1 / 2 then f else if 1 / 2 < r then f + 1 else if even f then f else f + 1)"

text \<open>The binary exponent of a positive rational: the \<open>e\<close> with \<open>2^e \<le> x < 2^(e+1)\<close>.\<close>

definition exponent2 :: "rat \<Rightarrow> int" where
  "exponent2 x = (case quotient_of x of (a, b) \<Rightarrow>
     let d = bitlen a - bitlen b in if 2 powi d \<le> x then d else d - 1)"

definition binary64 :: "rat \<Rightarrow> rat" where
  "binary64 x = (if x = 0 then 0 else
     let u = 2 powi (exponent2 \<bar>x\<bar> - 52)
     in sgn x * of_int (roundTiesToEven (\<bar>x\<bar> / u)) * u)"

text \<open>The operators \<open>/\<close> and \<open>*\<close> on numbers.\<close>

definition fdiv :: "rat \<Rightarrow> rat \<Rightarrow> rat" where
  "fdiv a b = binary64 (a / b)"

definition fmul :: "rat \<Rightarrow> rat \<Rightarrow> rat" where
  "fmul a b = binary64 (a * b)"

text \<open>
  \<open>ToInt32\<close>, which the bit operators \<open><<\<close> and \<open>&\<close> apply to their operands and
  result, and the remainder operator \<open>%\<close>, whose result has the sign of the dividend.
\<close>

definition toInt32 :: "int \<Rightarrow> int" where
  "toInt32 x = (x + 2 ^ 31) mod 2 ^ 32 - 2 ^ 31"

definition jsRem :: "int \<Rightarrow> int \<Rightarrow> int" where
  "jsRem a b = sgn a * (\<bar>a\<bar> mod \<bar>b\<bar>)"

text \<open>A score is a number; the loss branch of the hangman score can leave the integers.\<close>

datatype number = Finite int | PosInfinity | NaN

text \<open>The decimal text of a length, as a template literal \<open>${word.length}\<close> prints it.\<close>

fun natToString :: "nat \<Rightarrow> string" where
  "natToString n = (if n < 10 then [char_of (48 + n)]
     else natToString (n div 10) @ [char_of (48 + n mod 10)])"

text \<open>The members of \<open>new Set(xs)\<close> in insertion order: the first occurrence of each.\<close>

definition setOf :: "'a list \<Rightarrow> 'a list" where
  "setOf xs = rev (remdups (rev xs))"

subsection \<open>Arrays\<close>

text \<open>
  An array object has its elements \<open>0 .. length - 1\<close> and, like every object, further
  properties; a read at an index that is absent yields \<open>undefined\<close> (\<open>None\<close>), a write
  at a negative index creates a property and leaves the elements alone, a write beyond the
  end extends the array with holes.
\<close>

record 'a jsarray =
  elems :: "'a option list"
  props :: "int \<Rightarrow> 'a option"

definition arrayFrom :: "'a list \<Rightarrow> 'a jsarray" where
  "arrayFrom xs = \<lparr>elems = map Some xs, props = (\<lambda>_. None)\<rparr>"

definition arrayGet :: "'a jsarray \<Rightarrow> int \<Rightarrow> 'a option" where
  "arrayGet a i = (if 0 \<le> i \<and> i < int (length (elems a)) then elems a ! nat i else props a i)"

definition arraySet :: "'a jsarray \<Rightarrow> int \<Rightarrow> 'a option \<Rightarrow> 'a jsarray" where
  "arraySet a i v =
     (if 0 \<le> i \<and> i < int (length (elems a)) then a\<lparr>elems := (elems a)[nat i := v]\<rparr>
      else if 0 \<le> i then a\<lparr>elems := elems a @ replicate (nat i - length (elems a)) None @ [v]\<rparr>
      else a\<lparr>props := (props a)(i := v)\<rparr>)"

section \<open>Shared types (\<open>shared/types/api\<close>)\<close>

datatype ChoiceKey = KeyA | KeyB | KeyC

datatype HangmanDifficulty = Easy | Medium | Hard

record HangmanWord =
  word :: string
  hint :: string

record HangmanGuess =
  letter :: string
  correct :: bool
  timestamp :: int

record GameAnswer =
  itemId :: string
  pick :: ChoiceKey
  answerCorrect :: bool
  ms :: int

record UserState =
  streak :: nat
  maxStreak :: nat
  lastPlayed :: "string option"

record UserResult =
  userId :: string
  seed :: string
  resultScore :: nat
  timeMs :: int
  answers :: "GameAnswer list"

record WordMatchItem =
  itemKey :: string
  prompt_en :: string
  direction :: string
  choices :: "(ChoiceKey \<times> string) list"
  answerKey :: ChoiceKey
  itemNote :: "string option"
  tags :: "string list option"
  variants :: "string list option"

record WordMatchMeta =
  metaAuthor :: "string option"
  metaSource :: "string option"
  metaDifficulty :: "nat option"

text \<open>
  The items of a puzzle are array slots. A slot of a puzzle that \<open>generatePuzzleFromBank\<close>
  has built holds an item or \<open>undefined\<close>; a slot of a puzzle that was read from its JSON
  text holds an item or \<open>null\<close>.
\<close>

datatype 'a slot = Item 'a | Undefined | Null

fun slotOf :: "'a option \<Rightarrow> 'a slot" where
  "slotOf (Some x) = Item x"
| "slotOf None = Undefined"

record WordMatchDaily =
  puzzleId :: string
  lang :: string
  date :: string
  items :: "WordMatchItem slot list"
  meta :: "WordMatchMeta option"

datatype error = NoWordsAvailable HangmanDifficulty | InvalidSeedFormat

section \<open>Difficulty classification\<close>

text \<open>
  \<open>RandomWordsAPI.estimateDifficulty\<close> (random-words-api). It reads the number of code
  units of the word and nothing else, so the word is a list over any type of code unit.
\<close>

definition estimateDifficulty :: "'a list \<Rightarrow> HangmanDifficulty" where
  "estimateDifficulty w = (let len = length w in
     if len \<le> 5 then Easy else if len \<le> 9 then Medium else Hard)"

text \<open>
  \<open>OpenThesaurusAPI.estimateWordDifficulty\<close> (openthesaurus-api), on any string: it
  measures the lower-cased word.
\<close>

definition estimateWordDifficulty :: "nat list \<Rightarrow> HangmanDifficulty" where
  "estimateWordDifficulty w = (let normalizedWord = toLowerCaseUnits w; len = length normalizedWord in
     if len \<le> 5 then Easy else if len \<le> 9 then Medium else Hard)"

section \<open>Scoring\<close>

subsection \<open>Word match (\<open>scoring\<close>)\<close>

record ScoreResult =
  score :: nat
  perfect :: bool

record StreakResult =
  newStreak :: nat
  passed :: bool

definition computeScore :: "GameAnswer list \<Rightarrow> ScoreResult" where
  "computeScore as = (let sc = length (filter answerCorrect as)
     in \<lparr>score = sc, perfect = (sc = length as)\<rparr>)"

definition updateStreak :: "nat \<Rightarrow> nat \<Rightarrow> nat \<Rightarrow> StreakResult" where
  "updateStreak currentStreak sc totalItems =
     (let p = (\<lceil>fmul (of_nat totalItems) 0.625\<rceil> \<le> int sc)
      in \<lparr>newStreak = (if p then currentStreak + 1 else 0), passed = p\<rparr>)"

definition calculateTotalTime :: "GameAnswer list \<Rightarrow> int" where
  "calculateTotalTime as = foldl (\<lambda>total answer. total + ms answer) 0 as"

subsection \<open>Hangman (\<open>HangmanManager.calculateScore\<close>)\<close>

text \<open>
  \<open>timeMs\<close> is a count of milliseconds, the difference of two clock readings. In the loss
  branch a word without letters divides by zero: \<open>0 / 0\<close> is \<open>NaN\<close>, and a positive
  count over zero is \<open>Infinity\<close>.
\<close>

record HangmanScore =
  hangmanScore :: number
  hangmanPerfect :: bool

definition calculateScore :: "string \<Rightarrow> HangmanGuess list \<Rightarrow> bool \<Rightarrow> int \<Rightarrow> HangmanScore" where
  "calculateScore w guesses success t =
     (let sc =
        (if success then
           (let s0 = 0 + 100;
                incorrectGuesses = int (length (filter (\<lambda>g. \<not> correct g) guesses));
                remainingAttempts = 6 - incorrectGuesses;
                s1 = s0 + remainingAttempts * 15;
                timeSeconds = fdiv (of_int t) 1000;
                s2 = (if timeSeconds < 30 then s1 + 50
                      else if timeSeconds < 60 then s1 + 30
                      else if timeSeconds < 90 then s1 + 15 else s1);
                uniqueLettersInWord = length (setOf (toLowerCase w));
                correctGuesses = length (filter correct guesses);
                s3 = (if correctGuesses \<le> uniqueLettersInWord then s2 + 50
                      else if correctGuesses \<le> uniqueLettersInWord + 2 then s2 + 25 else s2)
            in Finite s3)
         else
           (let uniqueLettersInWord = length (setOf (toLowerCase w));
                correctGuesses = length (filter correct guesses)
            in if uniqueLettersInWord = 0
               then (if correctGuesses = 0 then NaN else PosInfinity)
               else (let progressPercentage = fdiv (of_nat correctGuesses) (of_nat uniqueLettersInWord)
                     in Finite (0 + \<lfloor>fmul progressPercentage 50\<rfloor>))));
          pf = (success \<and> \<not> list_ex (\<lambda>g. \<not> correct g) guesses)
      in \<lparr>hangmanScore = sc, hangmanPerfect = pf\<rparr>)"

section \<open>The key-value store (\<open>GameStorage\<close>)\<close>

text \<open>
  Each family of keys is a map from the variable part of the key to the value stored under
  it: \<open>user:{id}:streak\<close>, \<open>user:{id}:maxStreak\<close>, \<open>user:{id}:lastPlayed\<close>,
  \<open>user:{id}:played:{seed}\<close>, \<open>wm:puzzle:{seed}\<close> and \<open>wm:bank:{lang}\<close>. A counter is
  stored as its decimal text and a puzzle, a result or a bank as its JSON text; the model
  keeps the value that the text denotes.
\<close>

record Store =
  userStreak :: "string \<rightharpoonup> nat"
  userMaxStreak :: "string \<rightharpoonup> nat"
  userLastPlayed :: "string \<rightharpoonup> string"
  userPlayed :: "string \<times> string \<rightharpoonup> UserResult"
  wmPuzzle :: "string \<rightharpoonup> WordMatchDaily"
  wmBank :: "string \<rightharpoonup> WordMatchItem list"

definition getUserState :: "Store \<Rightarrow> string \<Rightarrow> UserState" where
  "getUserState st uid =
     \<lparr>streak = (case userStreak st uid of Some n \<Rightarrow> n | None \<Rightarrow> 0),
      maxStreak = (case userMaxStreak st uid of Some n \<Rightarrow> n | None \<Rightarrow> 0),
      lastPlayed = (case userLastPlayed st uid of
                      Some l \<Rightarrow> (if l = [] then None else Some l) | None \<Rightarrow> None)\<rparr>"

text \<open>\<open>state.lastPlayed && redis.set(...)\<close>: an absent or empty \<open>lastPlayed\<close> is not written.\<close>

definition updateUserState :: "Store \<Rightarrow> string \<Rightarrow> UserState \<Rightarrow> Store" where
  "updateUserState st uid state =
     (let st1 = st\<lparr>userStreak := (userStreak st)(uid \<mapsto> streak state)\<rparr>;
          st2 = st1\<lparr>userMaxStreak := (userMaxStreak st1)(uid \<mapsto> maxStreak state)\<rparr>
      in case lastPlayed state of
           None \<Rightarrow> st2
         | Some l \<Rightarrow> (if l = [] then st2
                      else st2\<lparr>userLastPlayed := (userLastPlayed st2)(uid \<mapsto> l)\<rparr>))"

definition saveUserResult :: "Store \<Rightarrow> UserResult \<Rightarrow> Store" where
  "saveUserResult st r = st\<lparr>userPlayed := (userPlayed st)((userId r, seed r) \<mapsto> r)\<rparr>"

text \<open>
  \<open>savePuzzle\<close> stores \<open>JSON.stringify(puzzle)\<close> and \<open>getPuzzle\<close> returns
  \<open>JSON.parse\<close> of the stored text. \<open>JSON.stringify\<close> writes an array slot that holds
  \<open>undefined\<close> as \<open>null\<close>; \<open>jsonPuzzle p\<close> is the value that the text of \<open>p\<close>
  denotes. (An absent optional field stays absent: it is not written.)
\<close>

fun jsonSlot :: "'a slot \<Rightarrow> 'a slot" where
  "jsonSlot (Item x) = Item x"
| "jsonSlot Undefined = Null"
| "jsonSlot Null = Null"

definition jsonPuzzle :: "WordMatchDaily \<Rightarrow> WordMatchDaily" where
  "jsonPuzzle p = p\<lparr>items := map jsonSlot (items p)\<rparr>"

definition savePuzzle :: "Store \<Rightarrow> WordMatchDaily \<Rightarrow> Store" where
  "savePuzzle st p = st\<lparr>wmPuzzle := (wmPuzzle st)(puzzleId p \<mapsto> jsonPuzzle p)\<rparr>"

definition getPuzzle :: "Store \<Rightarrow> string \<Rightarrow> WordMatchDaily option" where
  "getPuzzle st sd = wmPuzzle st sd"

definition saveWordBank :: "Store \<Rightarrow> string \<Rightarrow> WordMatchItem list \<Rightarrow> Store" where
  "saveWordBank st l bank = st\<lparr>wmBank := (wmBank st)(l \<mapsto> bank)\<rparr>"

definition getWordBank :: "Store \<Rightarrow> string \<Rightarrow> WordMatchItem list option" where
  "getWordBank st l = wmBank st l"

section \<open>The handler of \<open>POST /api/submit-result\<close>\<close>

text \<open>
  The request body carries \<open>userId\<close>, \<open>seed\<close> and \<open>answers\<close>. The response is modelled
  without its share text, which prints the current date.
\<close>

record SubmitRequest =
  reqUserId :: string
  reqSeed :: string
  reqAnswers :: "GameAnswer list"

record SubmitResultResponse =
  respScore :: nat
  respPerfect :: bool
  respTimeMs :: int
  respNewStreak :: nat
  respMaxStreak :: nat
  respAnswers :: "GameAnswer list"

definition submitResult :: "Store \<Rightarrow> SubmitRequest \<Rightarrow> SubmitResultResponse \<times> Store" where
  "submitResult st req =
     (let uid = reqUserId req; sd = reqSeed req; as = reqAnswers req;
          sr = computeScore as;
          t = calculateTotalTime as;
          userState = getUserState st uid;
          ns = newStreak (updateStreak (streak userState) (score sr) (length as));
          mx = max (maxStreak userState) ns;
          updatedState = \<lparr>streak = ns, maxStreak = mx, lastPlayed = Some sd\<rparr>;
          st1 = updateUserState st uid updatedState;
          st2 = saveUserResult st1
                  \<lparr>userId = uid, seed = sd, resultScore = score sr, timeMs = t, answers = as\<rparr>
      in (\<lparr>respScore = score sr, respPerfect = perfect sr, respTimeMs = t,
           respNewStreak = ns, respMaxStreak = mx, respAnswers = as\<rparr>, st2))"

section \<open>Seeded selection (\<open>seed\<close>)\<close>

text \<open>
  The hash of the seed: \<open>hash = ((hash << 5) - hash) + char; hash = hash & hash\<close> for each
  code unit of the seed.
\<close>

definition hashSeed :: "string \<Rightarrow> int" where
  "hashSeed sd =
     foldl (\<lambda>hash ch. toInt32 ((toInt32 (toInt32 hash * 32) - hash) + charCodeAt ch)) 0 sd"

text \<open>
  The loop \<open>while (currentIndex !== 0)\<close>: the first argument is \<open>currentIndex\<close> on
  entry. The destructuring swap reads both slots, then writes \<open>shuffled[currentIndex]\<close>
  and then \<open>shuffled[randomIndex]\<close>.
\<close>

fun shuffleLoop :: "nat \<Rightarrow> int \<Rightarrow> 'a jsarray \<Rightarrow> 'a jsarray" where
  "shuffleLoop 0 hash shuffled = shuffled"
| "shuffleLoop (Suc n) hash shuffled =
     (let hash1 = jsRem (hash * 9301 + 49297) 233280;
          randomIndex = \<lfloor>fmul (fdiv (of_int hash1) 233280) (of_nat (Suc n))\<rfloor>;
          currentIndex = int n;
          x = arrayGet shuffled randomIndex;
          y = arrayGet shuffled currentIndex;
          s1 = arraySet shuffled currentIndex x;
          s2 = arraySet s1 randomIndex y
      in shuffleLoop n hash1 s2)"

definition seededShuffle :: "'a list \<Rightarrow> string \<Rightarrow> 'a option list" where
  "seededShuffle array sd = elems (shuffleLoop (length array) (hashSeed sd) (arrayFrom array))"

definition selectRandomItems :: "'a list \<Rightarrow> nat \<Rightarrow> string \<Rightarrow> 'a option list" where
  "selectRandomItems its cnt sd = take cnt (seededShuffle its sd)"

section \<open>Daily puzzles (\<open>ContentManager\<close>)\<close>

definition GERMAN_WORD_BANK :: "WordMatchItem list" where
  "GERMAN_WORD_BANK = [
     \<lparr>itemKey = ''w1'', prompt_en = ''embarrassed'', direction = ''EN->L2'',
      choices = [(KeyA, ''embarazada''), (KeyB, ''verlegen''), (KeyC, ''peinlich'')],
      answerKey = KeyB,
      itemNote = Some (''Verlegen means embarrassed/shy. Peinlich means embarrassing (adjective).''),
      tags = Some [''emotion'', ''de-DE''], variants = Some [(''sch'' @ [CHR 0xFC] @ ''chtern'')]\<rparr>,
     \<lparr>itemKey = ''w2'', prompt_en = ''kitchen'', direction = ''EN->L2'',
      choices = [(KeyA, (''die K'' @ [CHR 0xFC] @ ''che'')), (KeyB, ''das Zimmer''), (KeyC, ''der Keller'')],
      answerKey = KeyA,
      itemNote = Some (''Die K'' @ [CHR 0xFC] @ ''che is the kitchen. Das Zimmer is room, der Keller is basement.''),
      tags = Some [''house'', ''de-DE''], variants = None\<rparr>,
     \<lparr>itemKey = ''w3'', prompt_en = ''friend'', direction = ''EN->L2'',
      choices = [(KeyA, ''der Feind''), (KeyB, ''der Fremde''), (KeyC, ''der Freund'')],
      answerKey = KeyC,
      itemNote = Some (''Der Freund is friend (male). Der Feind is enemy, der Fremde is stranger.''),
      tags = Some [''people'', ''de-DE''], variants = Some [''die Freundin'']\<rparr>,
     \<lparr>itemKey = ''w4'', prompt_en = ''beautiful'', direction = ''EN->L2'',
      choices = [(KeyA, (''h'' @ [CHR 0xE4] @ ''sslich'')), (KeyB, (''sch'' @ [CHR 0xF6] @ ''n'')), (KeyC, (''gro'' @ [CHR 0xDF]))],
      answerKey = KeyB,
      itemNote = Some (''Sch'' @ [CHR 0xF6] @ ''n means beautiful. H'' @ [CHR 0xE4] @ ''sslich means ugly, gro'' @ [CHR 0xDF] @ '' means big/tall.''),
      tags = Some [''adjective'', ''de-DE''], variants = None\<rparr>,
     \<lparr>itemKey = ''w5'', prompt_en = ''to eat'', direction = ''EN->L2'',
      choices = [(KeyA, ''trinken''), (KeyB, ''schlafen''), (KeyC, ''essen'')],
      answerKey = KeyC,
      itemNote = Some (''Essen means to eat. Trinken is to drink, schlafen is to sleep.''),
      tags = Some [''verb'', ''de-DE''], variants = None\<rparr>,
     \<lparr>itemKey = ''w6'', prompt_en = ''car'', direction = ''EN->L2'',
      choices = [(KeyA, ''das Auto''), (KeyB, ''der Zug''), (KeyC, ''das Fahrrad'')],
      answerKey = KeyA,
      itemNote = Some (''Das Auto is car. Der Zug is train, das Fahrrad is bicycle.''),
      tags = Some [''transport'', ''de-DE''], variants = None\<rparr>,
     \<lparr>itemKey = ''w7'', prompt_en = ''water'', direction = ''EN->L2'',
      choices = [(KeyA, ''das Bier''), (KeyB, ''das Wasser''), (KeyC, ''der Wein'')],
      answerKey = KeyB,
      itemNote = Some (''Das Wasser is water. Das Bier is beer, der Wein is wine.''),
      tags = Some [''drink'', ''de-DE''], variants = None\<rparr>,
     \<lparr>itemKey = ''w8'', prompt_en = ''house'', direction = ''EN->L2'',
      choices = [(KeyA, ''das Haus''), (KeyB, (''die Stra'' @ [CHR 0xDF] @ ''e'')), (KeyC, ''der Park'')],
      answerKey = KeyA,
      itemNote = Some (''Das Haus is house. Die Stra'' @ [CHR 0xDF] @ ''e is street, der Park is park.''),
      tags = Some [''building'', ''de-DE''], variants = None\<rparr>,
     \<lparr>itemKey = ''w9'', prompt_en = ''good'', direction = ''EN->L2'',
      choices = [(KeyA, ''schlecht''), (KeyB, ''gut''), (KeyC, ''okay'')],
      answerKey = KeyB,
      itemNote = Some (''Gut means good. Schlecht means bad, okay means okay.''),
      tags = Some [''adjective'', ''de-DE''], variants = None\<rparr>,
     \<lparr>itemKey = ''w10'', prompt_en = ''dog'', direction = ''EN->L2'',
      choices = [(KeyA, ''die Katze''), (KeyB, ''der Vogel''), (KeyC, ''der Hund'')],
      answerKey = KeyC,
      itemNote = Some (''Der Hund is dog. Die Katze is cat, der Vogel is bird.''),
      tags = Some [''animal'', ''de-DE''], variants = None\<rparr>,
     \<lparr>itemKey = ''w11'', prompt_en = ''book'', direction = ''EN->L2'',
      choices = [(KeyA, ''das Buch''), (KeyB, ''der Stift''), (KeyC, ''das Papier'')],
      answerKey = KeyA,
      itemNote = Some (''Das Buch is book. Der Stift is pen, das Papier is paper.''),
      tags = Some [''object'', ''de-DE''], variants = None\<rparr>,
     \<lparr>itemKey = ''w12'', prompt_en = ''red'', direction = ''EN->L2'',
      choices = [(KeyA, ''blau''), (KeyB, ''rot''), (KeyC, (''gr'' @ [CHR 0xFC] @ ''n''))],
      answerKey = KeyB,
      itemNote = Some (''Rot means red. Blau is blue, gr'' @ [CHR 0xFC] @ ''n is green.''),
      tags = Some [''color'', ''de-DE''], variants = None\<rparr>]"

text \<open>\<open>seed.split(':')\<close>.\<close>

fun splitOn :: "char \<Rightarrow> string \<Rightarrow> string list" where
  "splitOn c [] = [[]]"
| "splitOn c (x # xs) =
     (if x = c then [] # splitOn c xs
      else (case splitOn c xs of h # t \<Rightarrow> (x # h) # t | [] \<Rightarrow> [[x]]))"

definition generatePuzzleFromBank :: "Store \<Rightarrow> string \<Rightarrow> (error + WordMatchDaily) \<times> Store" where
  "generatePuzzleFromBank st sd =
     (let (wordBank, st1) =
            (case getWordBank st ''de'' of
               Some b \<Rightarrow> (b, st)
             | None \<Rightarrow> (GERMAN_WORD_BANK, saveWordBank st ''de'' GERMAN_WORD_BANK));
          selectedItems = selectRandomItems wordBank 8 sd
      in case splitOn CHR '':'' sd of
           [] \<Rightarrow> (Inl InvalidSeedFormat, st1)
         | dateStr # rest \<Rightarrow>
             (if dateStr = [] then (Inl InvalidSeedFormat, st1)
              else (Inr \<lparr>puzzleId = sd,
                         lang = (case rest of l # _ \<Rightarrow> (if l = [] then ''de'' else l) | [] \<Rightarrow> ''de''),
                         date = dateStr,
                         items = map slotOf selectedItems,
                         meta = Some \<lparr>metaAuthor = Some ''system'', metaSource = None,
                                      metaDifficulty = Some 1\<rparr>\<rparr>, st1)))"

definition getDailyPuzzle :: "Store \<Rightarrow> string \<Rightarrow> (error + WordMatchDaily) \<times> Store" where
  "getDailyPuzzle st sd =
     (case getPuzzle st sd of
        Some puzzle \<Rightarrow> (Inr puzzle, st)
      | None \<Rightarrow>
          (case generatePuzzleFromBank st sd of
             (Inl e, st1) \<Rightarrow> (Inl e, st1)
           | (Inr puzzle, st1) \<Rightarrow> (Inr puzzle, savePuzzle st1 puzzle)))"

section \<open>Word sources\<close>

subsection \<open>\<open>RandomWordsAPI\<close>\<close>

text \<open>
  One call of \<open>fetchRandomGermanWords\<close> draws a category and a length at random and sends
  one request; \<open>drawWords\<close> is what \<open>fetchWords\<close> returns for it (the empty list when the
  request fails).
\<close>

record RandomWordsDraw =
  drawCategory :: string
  drawLength :: nat
  drawWords :: "string list"

fun joinWith :: "string \<Rightarrow> string list \<Rightarrow> string" where
  "joinWith sep [] = []"
| "joinWith sep [x] = x"
| "joinWith sep (x # y # ys) = x @ sep @ joinWith sep (y # ys)"

definition buildHint :: "string \<Rightarrow> string option \<Rightarrow> nat option \<Rightarrow> string" where
  "buildHint w category len =
     (let parts = (case category of Some c \<Rightarrow> (if c = [] then [] else [''Category: '' @ c]) | None \<Rightarrow> [])
                @ (case len of Some l \<Rightarrow> (if l = 0 then [] else [natToString l @ '' letters'']) | None \<Rightarrow> [])
      in if parts = [] then ''Random German word ('' @ natToString (length w) @ '' letters)''
         else joinWith ([CHR 0x20, CHR 0xB7, CHR 0x20]) parts)"

definition fetchRandomGermanWords :: "RandomWordsDraw \<Rightarrow> HangmanWord list" where
  "fetchRandomGermanWords draw =
     map (\<lambda>w. \<lparr>word = w, hint = buildHint w (Some (drawCategory draw)) (Some (drawLength draw))\<rparr>)
       (filter (\<lambda>w. w \<noteq> [] \<and> 3 \<le> length w)
          (map (\<lambda>w. trim (toLowerCase w)) (setOf (drawWords draw))))"

subsection \<open>\<open>OpenThesaurusAPI\<close>\<close>

text \<open>
  The thesaurus service: \<open>searchWord\<close> answers a query with a response, or fails
  (\<open>None\<close>), in which case each of the callers below catches the error and returns the
  empty list.
\<close>

record SearchOptions =
  optSimilar :: bool
  optSubstring :: bool
  optStartswith :: bool

record OpenThesaurusResponse =
  respSynsets :: "string list list"
  respSubstring :: "string list option"

type_synonym OpenThesaurus = "string \<Rightarrow> SearchOptions \<Rightarrow> OpenThesaurusResponse option"

definition getSynonyms :: "OpenThesaurus \<Rightarrow> string \<Rightarrow> string list" where
  "getSynonyms searchWord w =
     (case searchWord w \<lparr>optSimilar = False, optSubstring = False, optStartswith = False\<rparr> of
        None \<Rightarrow> []
      | Some response \<Rightarrow>
          setOf (filter (\<lambda>t. toLowerCase t \<noteq> toLowerCase w) (concat (respSynsets response))))"

definition getWordsWithSubstring :: "OpenThesaurus \<Rightarrow> string \<Rightarrow> string list" where
  "getWordsWithSubstring searchWord sub =
     (case searchWord sub \<lparr>optSimilar = False, optSubstring = True, optStartswith = False\<rparr> of
        None \<Rightarrow> []
      | Some response \<Rightarrow> (case respSubstring response of Some ts \<Rightarrow> ts | None \<Rightarrow> []))"

definition getWordsStartingWith :: "OpenThesaurus \<Rightarrow> string \<Rightarrow> string list" where
  "getWordsStartingWith searchWord prefix =
     (case searchWord prefix \<lparr>optSimilar = False, optSubstring = False, optStartswith = True\<rparr> of
        None \<Rightarrow> []
      | Some response \<Rightarrow> (case respSubstring response of Some ts \<Rightarrow> ts | None \<Rightarrow> []))"

definition lettersHint :: "string \<Rightarrow> string" where
  "lettersHint w = ''A German word with '' @ natToString (length w) @ '' letters''"

definition generateHint :: "OpenThesaurus \<Rightarrow> string \<Rightarrow> string" where
  "generateHint searchWord w =
     (case getSynonyms searchWord w of
        syn # _ \<Rightarrow> ''Similar to: '' @ syn
      | [] \<Rightarrow> lettersHint w)"

section \<open>The word pool (\<open>WordEnricherRedis\<close>)\<close>

text \<open>
  The in-memory pool \<open>enrichedWords\<close>, the flag \<open>isInitialized\<close>, and the three hashes
  \<open>german_words:easy\<close>, \<open>german_words:medium\<close> and \<open>german_words:hard\<close> of the store,
  each a list of fields (word and hint) in the order in which the store lists them. That
  order is the store's own; the model lists a new field behind the fields that the hash has.
\<close>

record Enricher =
  enrichedWords :: "HangmanDifficulty \<Rightarrow> HangmanWord list"
  isInitialized :: bool
  redisWords :: "HangmanDifficulty \<Rightarrow> (string \<times> string) list"

definition getWordsFromRedis :: "Enricher \<Rightarrow> HangmanDifficulty \<Rightarrow> HangmanWord list" where
  "getWordsFromRedis s key =
     map (\<lambda>(w, h). \<lparr>word = w, hint = (if h = [] then lettersHint w else h)\<rparr>) (redisWords s key)"

definition initialize :: "Enricher \<Rightarrow> Enricher" where
  "initialize s =
     (if isInitialized s then s
      else (let pick = (\<lambda>redisWs. if redisWs \<noteq> [] then redisWs else [])
            in s\<lparr>enrichedWords := (\<lambda>d. pick (getWordsFromRedis s d)), isInitialized := True\<rparr>))"

text \<open>\<open>hSet\<close> of one field: the field is overwritten where it is, or added.\<close>

fun hSet :: "(string \<times> string) list \<Rightarrow> string \<Rightarrow> string \<Rightarrow> (string \<times> string) list" where
  "hSet [] k v = [(k, v)]"
| "hSet ((k1, v1) # kvs) k v = (if k1 = k then (k, v) # kvs else (k1, v1) # hSet kvs k v)"

text \<open>
  \<open>saveToRedis\<close> collects the words in the object \<open>wordHash\<close>, which starts as \<open>{}\<close>,
  and passes the object to \<open>hSet\<close>, which writes one field for each property of the
  object. The assignment \<open>wordHash[word] = ...\<close> creates the property \<open>word\<close> or
  overwrites it, for every key but one: with the key \<open>__proto__\<close> it reaches the accessor
  that the object inherits, which ignores a string, and the object gains no property. With
  no property in the object nothing is written (and an error of the store is caught).
\<close>

definition assignProperty :: "(string \<times> string) list \<Rightarrow> string \<Rightarrow> string \<Rightarrow> (string \<times> string) list" where
  "assignProperty obj k v = (if k = ''__proto__'' then obj else hSet obj k v)"

definition saveToRedis :: "Enricher \<Rightarrow> HangmanDifficulty \<Rightarrow> HangmanWord list \<Rightarrow> Enricher" where
  "saveToRedis s d ws =
     (if ws = [] then s
      else (let wordHash =
                  foldl (\<lambda>obj w. assignProperty obj (word w)
                                   (if hint w = [] then lettersHint (word w) else hint w))
                    [] ws
            in s\<lparr>redisWords := (redisWords s)
                   (d := foldl (\<lambda>h (k, v). hSet h k v) (redisWords s d) wordHash)\<rparr>))"

definition getWords :: "Enricher \<Rightarrow> HangmanDifficulty \<Rightarrow> HangmanWord list \<times> Enricher" where
  "getWords s d = (let s0 = initialize s in (enrichedWords s0 d, s0))"

definition allWords :: "Enricher \<Rightarrow> HangmanWord list" where
  "allWords s = enrichedWords s Easy @ enrichedWords s Medium @ enrichedWords s Hard"

definition pushWord :: "Enricher \<Rightarrow> HangmanDifficulty \<Rightarrow> HangmanWord \<Rightarrow> Enricher" where
  "pushWord s d w = s\<lparr>enrichedWords := (enrichedWords s)(d := enrichedWords s d @ [w])\<rparr>"

definition addWord :: "Enricher \<Rightarrow> string \<Rightarrow> string \<Rightarrow> HangmanDifficulty option \<Rightarrow> bool \<times> Enricher" where
  "addWord s w h difficulty =
     (let s0 = initialize s;
          normalizedWord = trim (toLowerCase w)
      in if list_ex (\<lambda>e. toLowerCase (word e) = normalizedWord) (allWords s0) then (False, s0)
         else (let actualDifficulty =
                     (case difficulty of Some d \<Rightarrow> d | None \<Rightarrow> estimateDifficulty normalizedWord);
                   newWord = \<lparr>word = normalizedWord, hint = h\<rparr>;
                   s1 = pushWord s0 actualDifficulty newWord;
                   s2 = saveToRedis s1 actualDifficulty [newWord]
               in (True, s2)))"

text \<open>
  The body of the loops \<open>for (const ... of fetched)\<close>: the pool, the words grouped by
  difficulty for the later save, and the counter.
\<close>

type_synonym enrichAcc = "Enricher \<times> (HangmanDifficulty \<Rightarrow> HangmanWord list) \<times> nat"

definition enrichStep :: "(string \<Rightarrow> HangmanDifficulty) \<Rightarrow> enrichAcc \<Rightarrow> HangmanWord \<Rightarrow> enrichAcc" where
  "enrichStep classify acc entry =
     (case acc of (s, byDifficulty, added) \<Rightarrow>
        if list_ex (\<lambda>w. toLowerCase (word w) = toLowerCase (word entry)) (allWords s) then acc
        else (let diff = classify (word entry)
              in (pushWord s diff entry, byDifficulty(diff := byDifficulty diff @ [entry]), added + 1)))"

definition persistByDifficulty :: "Enricher \<Rightarrow> (HangmanDifficulty \<Rightarrow> HangmanWord list) \<Rightarrow> Enricher" where
  "persistByDifficulty s byDifficulty =
     foldl (\<lambda>s1 diff. if byDifficulty diff \<noteq> [] then saveToRedis s1 diff (byDifficulty diff) else s1)
       s [Easy, Medium, Hard]"

definition enrichWithRandomGermanWords :: "Enricher \<Rightarrow> RandomWordsDraw \<Rightarrow> nat \<Rightarrow> nat \<times> Enricher" where
  "enrichWithRandomGermanWords s draw cnt =
     (let s0 = initialize s;
          fetched = fetchRandomGermanWords draw
      in case foldl (enrichStep estimateDifficulty) (s0, (\<lambda>_. []), 0) fetched of
           (s1, byDifficulty, added) \<Rightarrow> (added, persistByDifficulty s1 byDifficulty))"

text \<open>
  \<open>searchAndAddWords\<close>: \<open>shuffle\<close> is the outcome of \<open>sort(() => 0.5 - Math.random())\<close>,
  and the hint of each selected word is generated before the word is pushed.
\<close>

definition searchAndAddWords ::
  "Enricher \<Rightarrow> OpenThesaurus \<Rightarrow> (string list \<Rightarrow> string list) \<Rightarrow> string \<Rightarrow> nat \<Rightarrow> nat \<times> Enricher" where
  "searchAndAddWords s searchWord shuffle searchTerm cnt =
     (let s0 = initialize s;
          startsWithWords = getWordsStartingWith searchWord searchTerm;
          wordPool1 = [] @ startsWithWords;
          wordPool2 = (if length wordPool1 < cnt * 2
                       then setOf (wordPool1 @ getWordsWithSubstring searchWord searchTerm)
                       else wordPool1);
          wordPool3 = (if length wordPool2 < cnt \<and> 3 \<le> length searchTerm
                       then setOf (wordPool2 @ getSynonyms searchWord searchTerm)
                       else wordPool2);
          wordPool4 = filter (\<lambda>w. 3 \<le> length w) wordPool3;
          shuffled = shuffle wordPool4;
          selected = take cnt shuffled;
          entries = map (\<lambda>w. \<lparr>word = w, hint = generateHint searchWord w\<rparr>) selected
      in case foldl (enrichStep (\<lambda>w. estimateWordDifficulty (codeUnits w))) (s0, (\<lambda>_. []), 0) entries of
           (s1, wordsByDifficulty, addedCount) \<Rightarrow>
             (addedCount, persistByDifficulty s1 wordsByDifficulty))"

section \<open>Word selection (\<open>german-words\<close>)\<close>

text \<open>
  \<open>getWordByIndex\<close> over the pool: \<open>words[safeIndex]\<close> is \<open>undefined\<close> (\<open>None\<close>) when
  the remainder is negative.
\<close>

definition getWordByIndex ::
  "Enricher \<Rightarrow> RandomWordsDraw \<Rightarrow> HangmanDifficulty \<Rightarrow> int \<Rightarrow> (error + HangmanWord option) \<times> Enricher" where
  "getWordByIndex s draw d index =
     (case getWords s d of (words0, s1) \<Rightarrow>
        (case (if words0 = []
               then getWords (snd (enrichWithRandomGermanWords s1 draw 6)) d
               else (words0, s1)) of
           (ws, s2) \<Rightarrow>
             if ws = [] then (Inl (NoWordsAvailable d), s2)
             else (let safeIndex = jsRem index (int (length ws))
                   in (Inr (if 0 \<le> safeIndex then Some (ws ! nat safeIndex) else None), s2))))"

text \<open>The variant over the fixed word list.\<close>

definition germanWords :: "HangmanDifficulty \<Rightarrow> HangmanWord list" where
  "germanWords d = (case d of
       Easy \<Rightarrow> [
        \<lparr>word = ''hallo'', hint = ''A common greeting''\<rparr>,
        \<lparr>word = ''danke'', hint = ''What you say when someone helps you''\<rparr>,
        \<lparr>word = ''bitte'', hint = (''Please or you'' @ [CHR 0x27] @ ''re welcome'')\<rparr>,
        \<lparr>word = ''haus'', hint = ''Where you live''\<rparr>,
        \<lparr>word = ''katze'', hint = ''A common pet that meows''\<rparr>,
        \<lparr>word = ''hund'', hint = ''A common pet that barks''\<rparr>,
        \<lparr>word = ''buch'', hint = ''You read this''\<rparr>,
        \<lparr>word = ''tisch'', hint = ''You eat on this''\<rparr>,
        \<lparr>word = ''stuhl'', hint = ''You sit on this''\<rparr>,
        \<lparr>word = ''auto'', hint = ''A vehicle with four wheels''\<rparr>]
     | Medium \<Rightarrow> [
        \<lparr>word = ''schule'', hint = ''Where children learn''\<rparr>,
        \<lparr>word = ''freund'', hint = ''Someone you like spending time with''\<rparr>,
        \<lparr>word = ''familie'', hint = ''Your relatives''\<rparr>,
        \<lparr>word = ''wasser'', hint = ''You drink this''\<rparr>,
        \<lparr>word = ''sommer'', hint = ''The hot season''\<rparr>,
        \<lparr>word = ''winter'', hint = ''The cold season''\<rparr>,
        \<lparr>word = (''fr'' @ [CHR 0xFC] @ ''hst'' @ [CHR 0xFC] @ ''ck''), hint = ''First meal of the day''\<rparr>,
        \<lparr>word = ''fenster'', hint = ''You look outside through this''\<rparr>,
        \<lparr>word = (''stra'' @ [CHR 0xDF] @ ''e''), hint = ''Cars drive on this''\<rparr>,
        \<lparr>word = ''kuchen'', hint = ''A sweet dessert''\<rparr>]
     | Hard \<Rightarrow> [
        \<lparr>word = (''sehensw'' @ [CHR 0xFC] @ ''rdigkeit''), hint = ''Tourist attraction''\<rparr>,
        \<lparr>word = ''geschwindigkeit'', hint = ''How fast something moves''\<rparr>,
        \<lparr>word = ''freundschaft'', hint = ''The relationship between friends''\<rparr>,
        \<lparr>word = ''wissenschaft'', hint = ''Study of the natural world''\<rparr>,
        \<lparr>word = ''verantwortung'', hint = ''Being accountable for something''\<rparr>,
        \<lparr>word = ''entschuldigung'', hint = (''What you say when you'' @ [CHR 0x27] @ ''re sorry'')\<rparr>,
        \<lparr>word = ([CHR 0xFC] @ ''berraschung''), hint = ''Something unexpected''\<rparr>,
        \<lparr>word = ''schwierigkeiten'', hint = ''Problems or challenges''\<rparr>,
        \<lparr>word = ''wahrscheinlich'', hint = ''Not certain but likely''\<rparr>,
        \<lparr>word = ''zusammenfassung'', hint = ''A brief overview''\<rparr>])"

definition getWordByIndex_static :: "HangmanDifficulty \<Rightarrow> int \<Rightarrow> HangmanWord option" where
  "getWordByIndex_static d index =
     (let ws = germanWords d;
          safeIndex = jsRem index (int (length ws))
      in if 0 \<le> safeIndex \<and> safeIndex < int (length ws) then Some (ws ! nat safeIndex) else None)"

section \<open>Reference formulas and initial states\<close>

text \<open>
  The quantities the specification of the hangman score is written in: the number of
  distinct letters of the word, the time bonus over the exact quotient \<open>timeMs / 1000\<close>,
  and the efficiency bonus.
\<close>

definition uniqueLetterCount :: "string \<Rightarrow> nat" where
  "uniqueLetterCount w = card (set (toLowerCase w))"

definition timeBonus :: "int \<Rightarrow> int" where
  "timeBonus t = (if (of_int t :: rat) / 1000 < 30 then 50
     else if (of_int t :: rat) / 1000 < 60 then 30
     else if (of_int t :: rat) / 1000 < 90 then 15 else 0)"

definition efficiencyBonus :: "nat \<Rightarrow> nat \<Rightarrow> int" where
  "efficiencyBonus correctGuesses uniqueLetters =
     (if correctGuesses \<le> uniqueLetters then 50
      else if correctGuesses \<le> uniqueLetters + 2 then 25 else 0)"

text \<open>One guess per letter of a string, each with the same verdict.\<close>

definition guessesOf :: "string \<Rightarrow> bool \<Rightarrow> HangmanGuess list" where
  "guessesOf ls ok = map (\<lambda>c. \<lparr>letter = [c], correct = ok, timestamp = 0\<rparr>) ls"

text \<open>The store before any write, and the pool as the class declares it.\<close>

definition emptyStore :: Store where
  "emptyStore = \<lparr>userStreak = Map.empty, userMaxStreak = Map.empty, userLastPlayed = Map.empty,
     userPlayed = Map.empty, wmPuzzle = Map.empty, wmBank = Map.empty\<rparr>"

definition emptyEnricher :: Enricher where
  "emptyEnricher = \<lparr>enrichedWords = (\<lambda>_. []), isInitialized = False, redisWords = (\<lambda>_. [])\<rparr>"

text \<open>The word bank a puzzle is drawn from: the stored bank, or the default one.\<close>

definition bankOf :: "Store \<Rightarrow> WordMatchItem list" where
  "bankOf st = (case getWordBank st ''de'' of Some b \<Rightarrow> b | None \<Rightarrow> GERMAN_WORD_BANK)"

text \<open>
  The invariant of the pool, that no word occurs twice across the three tiers when case is
  ignored; the entries an operation appended to the tiers of the pool; and what the
  specification asks of an enrichment operation that starts from the pool \<open>s0\<close> and
  returns the count and the pool of \<open>r\<close>: the old entries are kept in place, the count is
  the number of appended entries, no appended entry equals an old one when case is ignored,
  and the invariant is preserved.
\<close>

definition uniquePool :: "Enricher \<Rightarrow> bool" where
  "uniquePool s = distinct (map (\<lambda>e. toLowerCase (word e)) (allWords s))"

definition appended :: "Enricher \<Rightarrow> Enricher \<Rightarrow> HangmanWord list" where
  "appended s0 s1 =
     concat (map (\<lambda>d. drop (length (enrichedWords s0 d)) (enrichedWords s1 d)) [Easy, Medium, Hard])"

definition enrichmentOk :: "Enricher \<Rightarrow> nat \<times> Enricher \<Rightarrow> bool" where
  "enrichmentOk s0 r =
     ((\<forall>d. take (length (enrichedWords s0 d)) (enrichedWords (snd r) d) = enrichedWords s0 d)
      \<and> fst r = length (appended s0 (snd r))
      \<and> (\<forall>e \<in> set (appended s0 (snd r)). \<forall>q \<in> set (allWords s0).
            toLowerCase (word e) \<noteq> toLowerCase (word q))
      \<and> (uniquePool s0 \<longrightarrow> uniquePool (snd r)))"

section \<open>Properties of the number model\<close>

subsection \<open>Rounding to the nearest integer, ties to even\<close>

lemma rte_of_int: "roundTiesToEven (of_int n) = n"
  by (simp add: roundTiesToEven_def)

lemma rte_cases:
  "roundTiesToEven q = \<lfloor>q\<rfloor> \<or> roundTiesToEven q = \<lfloor>q\<rfloor> + 1"
  by (simp add: roundTiesToEven_def Let_def)

lemma rte_err: "\<bar>of_int (roundTiesToEven q) - q\<bar> \<le> 1 / 2"
proof -
  have a: "of_int \<lfloor>q\<rfloor> \<le> q" "q < of_int \<lfloor>q\<rfloor> + 1"
    by linarith+
  show ?thesis
    unfolding roundTiesToEven_def Let_def using a
    by (simp add: abs_le_iff) 
qed

lemma rte_ge_floor: "\<lfloor>q\<rfloor> \<le> roundTiesToEven q"
  using rte_cases [of q] by linarith

lemma rte_le_ceil: "roundTiesToEven q \<le> \<lfloor>q\<rfloor> + 1"
  using rte_cases [of q] by linarith

lemma rte_mono: "q \<le> q' \<Longrightarrow> roundTiesToEven q \<le> roundTiesToEven q'"
proof -
  assume le: "q \<le> q'"
  have "\<lfloor>q\<rfloor> \<le> \<lfloor>q'\<rfloor>" using le by (rule floor_mono)
  then consider "\<lfloor>q\<rfloor> = \<lfloor>q'\<rfloor>" | "\<lfloor>q\<rfloor> + 1 \<le> \<lfloor>q'\<rfloor>" by linarith
  then show ?thesis
  proof cases
    case 1
    then show ?thesis using le
      by (auto simp: roundTiesToEven_def Let_def)
  next
    case 2
    then show ?thesis using rte_le_ceil [of q] rte_ge_floor [of q'] by linarith
  qed
qed

subsection \<open>The binary exponent\<close>

lemma exponent2_bounds:
  assumes "0 < x"
  shows "2 powi exponent2 x \<le> x" and "x < 2 powi (exponent2 x + 1)"
proof -
  obtain a b where q: "quotient_of x = (a, b)" by (cases "quotient_of x")
  have b: "0 < b" using q by (rule quotient_of_denom_pos)
  have x: "x = of_int a / of_int b" using q by (rule quotient_of_div)
  have a: "0 < a" using assms b x by (simp add: zero_less_divide_iff)
  define la lb where "la = bitlen a" and "lb = bitlen b"
  have la: "2 ^ nat (la - 1) \<le> a" "a < 2 ^ nat la"
    using bitlen_bounds [OF a] by (simp_all add: la_def)
  have lb: "2 ^ nat (lb - 1) \<le> b" "b < 2 ^ nat lb"
    using bitlen_bounds [OF b] by (simp_all add: lb_def)
  have la1: "1 \<le> la" using a by (simp add: la_def bitlen_alt_def)
  have lb1: "1 \<le> lb" using b by (simp add: lb_def bitlen_alt_def)
  have ra: "(2::rat) powi (la - 1) \<le> of_int a" "of_int a < (2::rat) powi la"
  proof -
    have "(of_int (2 ^ nat (la - 1)) :: rat) \<le> of_int a" using la(1) by (simp only: of_int_le_iff)
    then show "(2::rat) powi (la - 1) \<le> of_int a" using la1 by (simp add: power_int_def)
    have "(of_int a :: rat) < of_int (2 ^ nat la)" using la(2) by (simp only: of_int_less_iff)
    then show "of_int a < (2::rat) powi la" using la1 by (simp add: power_int_def)
  qed
  have rb: "(2::rat) powi (lb - 1) \<le> of_int b" "of_int b < (2::rat) powi lb"
  proof -
    have "(of_int (2 ^ nat (lb - 1)) :: rat) \<le> of_int b" using lb(1) by (simp only: of_int_le_iff)
    then show "(2::rat) powi (lb - 1) \<le> of_int b" using lb1 by (simp add: power_int_def)
    have "(of_int b :: rat) < of_int (2 ^ nat lb)" using lb(2) by (simp only: of_int_less_iff)
    then show "of_int b < (2::rat) powi lb" using lb1 by (simp add: power_int_def)
  qed
  have lo: "(2::rat) powi (la - lb - 1) \<le> x"
  proof -
    have "(2::rat) powi (la - 1) / 2 powi lb \<le> of_int a / of_int b"
      using ra(1) rb(2) a b by (intro frac_le) simp_all
    moreover have "(2::rat) powi (la - lb - 1) = 2 powi (la - 1) / 2 powi lb"
      using power_int_diff [of "2::rat" "la - 1" lb] by (simp add: algebra_simps)
    ultimately show ?thesis by (simp add: x)
  qed
  have hi: "x < (2::rat) powi (la - lb + 1)"
  proof -
    have "of_int a / of_int b < (2::rat) powi la / 2 powi (lb - 1)"
      using ra(2) rb(1) a by (intro frac_less) simp_all
    moreover have "(2::rat) powi (la - lb + 1) = 2 powi la / 2 powi (lb - 1)"
      using power_int_diff [of "2::rat" la "lb - 1"] by (simp add: algebra_simps)
    ultimately show ?thesis by (simp add: x)
  qed
  have e: "exponent2 x = (if 2 powi (la - lb) \<le> x then la - lb else la - lb - 1)"
    by (simp add: exponent2_def q la_def lb_def Let_def)
  show "2 powi exponent2 x \<le> x" using lo by (simp add: e)
  show "x < 2 powi (exponent2 x + 1)" using hi by (auto simp add: e not_le)
qed

lemma exponent2_unique:
  assumes "0 < x" and "2 powi e \<le> x" and "x < 2 powi (e + 1)"
  shows "exponent2 x = e"
proof (rule ccontr)
  assume ne: "exponent2 x \<noteq> e"
  let ?e = "exponent2 x"
  note b = exponent2_bounds [OF assms(1)]
  from ne consider "?e + 1 \<le> e" | "e + 1 \<le> ?e" by linarith
  then show False
  proof cases
    case 1
    then have "(2::rat) powi (?e + 1) \<le> 2 powi e" by (intro power_int_increasing) simp_all
    with b(2) assms(2) show False by linarith
  next
    case 2
    then have "(2::rat) powi (e + 1) \<le> 2 powi ?e" by (intro power_int_increasing) simp_all
    with b(1) assms(3) show False by linarith
  qed
qed

lemma exponent2_mono:
  assumes "0 < x" and "x \<le> y"
  shows "exponent2 x \<le> exponent2 y"
proof (rule ccontr)
  assume "\<not> exponent2 x \<le> exponent2 y"
  then have "exponent2 y + 1 \<le> exponent2 x" by linarith
  then have "(2::rat) powi (exponent2 y + 1) \<le> 2 powi exponent2 x"
    by (intro power_int_increasing) simp_all
  moreover have "0 < y" using assms by linarith
  ultimately show False
    using exponent2_bounds(1) [OF assms(1)] exponent2_bounds(2) [of y] assms(2) by linarith
qed

subsection \<open>Rounding to binary64: symmetric, monotone, exact on its own values\<close>

lemma binary64_pos:
  "0 < x \<Longrightarrow> binary64 x =
     of_int (roundTiesToEven (x / 2 powi (exponent2 x - 52))) * 2 powi (exponent2 x - 52)"
  by (simp add: binary64_def Let_def)

lemma binary64_zero: "binary64 0 = 0"
  by (simp add: binary64_def)

lemma binary64_minus: "binary64 (- x) = - binary64 x"
  by (simp add: binary64_def Let_def)

lemma binary64_range:
  assumes "0 < x"
  shows "2 powi exponent2 x \<le> binary64 x" and "binary64 x \<le> 2 powi (exponent2 x + 1)"
proof -
  let ?e = "exponent2 x"
  define u :: rat where "u = 2 powi (?e - 52)"
  have u: "0 < u" by (simp add: u_def)
  note b = exponent2_bounds [OF assms]
  have "(2::rat) powi ?e = 2 powi 52 * 2 powi (?e - 52)"
    by (subst power_int_add [symmetric]) simp_all
  moreover have "(2::rat) powi (?e + 1) = 2 powi 53 * 2 powi (?e - 52)"
    by (subst power_int_add [symmetric]) (simp_all add: add.commute)
  ultimately have p: "(2::rat) powi ?e = 2 ^ 52 * u" "(2::rat) powi (?e + 1) = 2 ^ 53 * u"
    by (simp_all add: u_def)
  have "2 ^ 52 \<le> x / u" using b(1) u by (simp add: p pos_le_divide_eq)
  then have "roundTiesToEven (of_int (2 ^ 52)) \<le> roundTiesToEven (x / u)"
    by (intro rte_mono) simp
  then have lo: "2 ^ 52 \<le> roundTiesToEven (x / u)" by (simp only: rte_of_int)
  have "x / u \<le> 2 ^ 53" using b(2) u by (simp add: p pos_divide_le_eq)
  then have "roundTiesToEven (x / u) \<le> roundTiesToEven (of_int (2 ^ 53))"
    by (intro rte_mono) simp
  then have hi: "roundTiesToEven (x / u) \<le> 2 ^ 53" by (simp only: rte_of_int)
  have r: "binary64 x = of_int (roundTiesToEven (x / u)) * u"
    using assms by (simp add: binary64_pos u_def)
  have "(of_int (2 ^ 52) :: rat) \<le> of_int (roundTiesToEven (x / u))"
    using lo by (simp only: of_int_le_iff)
  then show "2 powi ?e \<le> binary64 x" using u by (simp add: r p)
  have "(of_int (roundTiesToEven (x / u)) :: rat) \<le> of_int (2 ^ 53)"
    using hi by (simp only: of_int_le_iff)
  then show "binary64 x \<le> 2 powi (?e + 1)" using u by (simp add: r p)
qed

lemma binary64_mono_pos:
  assumes "0 < x" and "x \<le> y"
  shows "binary64 x \<le> binary64 y"
proof -
  have y: "0 < y" using assms by linarith
  have "exponent2 x \<le> exponent2 y" using assms by (rule exponent2_mono)
  then consider "exponent2 x = exponent2 y" | "exponent2 x + 1 \<le> exponent2 y" by linarith
  then show ?thesis
  proof cases
    case 1
    define u :: rat where "u = 2 powi (exponent2 y - 52)"
    have u: "0 < u" by (simp add: u_def)
    have "x / u \<le> y / u" using assms(2) u by (simp add: divide_right_mono)
    then have "roundTiesToEven (x / u) \<le> roundTiesToEven (y / u)" by (rule rte_mono)
    then have "(of_int (roundTiesToEven (x / u)) :: rat) \<le> of_int (roundTiesToEven (y / u))"
      by (simp only: of_int_le_iff)
    then show ?thesis using u assms(1) y 1 by (simp add: binary64_pos u_def)
  next
    case 2
    then have "(2::rat) powi (exponent2 x + 1) \<le> 2 powi exponent2 y"
      by (intro power_int_increasing) simp_all
    then show ?thesis
      using binary64_range(2) [OF assms(1)] binary64_range(1) [OF y] by linarith
  qed
qed

lemma binary64_nonneg: "0 \<le> x \<Longrightarrow> 0 \<le> binary64 x"
proof (cases "x = 0")
  case True
  then show ?thesis by (simp add: binary64_zero)
next
  case False
  assume "0 \<le> x"
  with False have x: "0 < x" by simp
  have "(0::rat) < 2 powi exponent2 x" by simp
  then show ?thesis using binary64_range(1) [OF x] by linarith
qed

lemma binary64_mono:
  assumes "x \<le> y"
  shows "binary64 x \<le> binary64 y"
proof -
  consider "0 < x" | "x \<le> 0" "0 \<le> y" | "y < 0" by linarith
  then show ?thesis
  proof cases
    case 1
    then show ?thesis using assms by (rule binary64_mono_pos)
  next
    case 2
    have "0 \<le> binary64 (- x)" using 2(1) by (intro binary64_nonneg) simp
    then have "binary64 x \<le> 0" by (simp add: binary64_minus)
    moreover have "0 \<le> binary64 y" using 2(2) by (rule binary64_nonneg)
    ultimately show ?thesis by linarith
  next
    case 3
    then have "binary64 (- y) \<le> binary64 (- x)"
      using assms by (intro binary64_mono_pos) simp_all
    then show ?thesis by (simp add: binary64_minus)
  qed
qed

lemma binary64_error_pos:
  assumes "0 < x"
  shows "\<bar>binary64 x - x\<bar> \<le> x / 2 ^ 53"
proof -
  let ?e = "exponent2 x"
  define u :: rat where "u = 2 powi (?e - 52)"
  have u: "0 < u" by (simp add: u_def)
  have p: "(2::rat) powi ?e = 2 ^ 52 * u"
    using power_int_add [of "2::rat" 52 "?e - 52"] by (simp add: u_def)
  have ux: "2 ^ 52 * u \<le> x" using exponent2_bounds(1) [OF assms] by (simp add: p)
  have r: "binary64 x = of_int (roundTiesToEven (x / u)) * u"
    using assms by (simp add: binary64_pos u_def)
  have "binary64 x - x = (of_int (roundTiesToEven (x / u)) - x / u) * u"
    using u by (simp add: r algebra_simps)
  then have "\<bar>binary64 x - x\<bar> = \<bar>of_int (roundTiesToEven (x / u)) - x / u\<bar> * u"
    using u by (simp add: abs_mult)
  also have "\<dots> \<le> (1 / 2) * u"
    using rte_err [of "x / u"] u by (intro mult_right_mono) simp_all
  also have "\<dots> \<le> x / 2 ^ 53" using ux by simp
  finally show ?thesis .
qed

lemma binary64_error: "\<bar>binary64 x - x\<bar> \<le> \<bar>x\<bar> / 2 ^ 53"
proof -
  consider "0 < x" | "x = 0" | "x < 0" by linarith
  then show ?thesis
  proof cases
    case 1
    then show ?thesis using binary64_error_pos [of x] by simp
  next
    case 2
    then show ?thesis by (simp add: binary64_zero)
  next
    case 3
    then have "\<bar>binary64 (- x) - (- x)\<bar> \<le> (- x) / 2 ^ 53"
      by (intro binary64_error_pos) simp
    then show ?thesis using 3 by (simp add: binary64_minus abs_if split: if_splits)
  qed
qed

lemma binary64_exact_pos:
  assumes "0 < m" and "m < 2 ^ 53"
  shows "binary64 (of_int m * 2 powi k) = of_int m * 2 powi k"
proof -
  define x :: rat where "x = of_int m * 2 powi k"
  have x: "0 < x" using assms(1) by (simp add: x_def)
  let ?e = "exponent2 x"
  have "x < 2 ^ 53 * 2 powi k"
  proof -
    have "(of_int m :: rat) < of_int (2 ^ 53)" using assms(2) by (simp only: of_int_less_iff)
    then show ?thesis by (simp add: x_def)
  qed
  also have "\<dots> = 2 powi (53 + k)" using power_int_add [of "2::rat" 53 k] by simp
  finally have "(2::rat) powi ?e < 2 powi (53 + k)"
    using exponent2_bounds(1) [OF x] by linarith
  then have "?e < 53 + k"
    using power_int_increasing [of "53 + k" ?e "2::rat"] by (cases "?e < 53 + k") simp_all
  then have d: "0 \<le> k - (?e - 52)" by linarith
  have "x / 2 powi (?e - 52) = of_int m * 2 powi (k - (?e - 52))"
    using power_int_diff [of "2::rat" k "?e - 52"] by (simp add: x_def)
  also have "\<dots> = of_int (m * 2 ^ nat (k - (?e - 52)))" using d by (simp add: power_int_def)
  finally have q: "x / 2 powi (?e - 52) = of_int (m * 2 ^ nat (k - (?e - 52)))" .
  have "binary64 x = x / 2 powi (?e - 52) * 2 powi (?e - 52)"
    unfolding binary64_pos [OF x] q rte_of_int ..
  then show ?thesis by (simp add: x_def)
qed

lemma binary64_exact:
  assumes "\<bar>m\<bar> < 2 ^ 53"
  shows "binary64 (of_int m * 2 powi k) = of_int m * 2 powi k"
proof -
  consider "0 < m" | "m = 0" | "m < 0" by linarith
  then show ?thesis
  proof cases
    case 1
    then show ?thesis using assms by (intro binary64_exact_pos) simp_all
  next
    case 2
    then show ?thesis by (simp add: binary64_zero)
  next
    case 3
    then have "binary64 (of_int (- m) * 2 powi k) = of_int (- m) * 2 powi k"
      using assms by (intro binary64_exact_pos) simp_all
    then show ?thesis using binary64_minus [of "of_int m * 2 powi k"] by simp
  qed
qed

subsection \<open>The products and quotients of the scoring code\<close>

lemma times_0625_exact:
  assumes "n < 2 ^ 50"
  shows "fmul (of_nat n) 0.625 = of_nat n * 0.625"
proof -
  have "(5 * int n) < 5 * 2 ^ 50" using assms by simp
  then have "\<bar>5 * int n\<bar> < 2 ^ 53" by simp
  then have F: "binary64 (of_int (5 * int n) * 2 powi (- 3)) = of_int (5 * int n) * 2 powi (- 3)"
    by (rule binary64_exact)
  have e: "(of_nat n * 0.625 :: rat) = of_int (5 * int n) * 2 powi (- 3)"
    by (simp add: power_int_minus)
  show ?thesis unfolding fmul_def e by (rule F)
qed

lemma passed_iff:
  assumes "totalItems < 2 ^ 50"
  shows "passed (updateStreak cur sc totalItems) \<longleftrightarrow> \<lceil>(of_nat totalItems :: rat) * 0.625\<rceil> \<le> int sc"
  unfolding updateStreak_def Let_def times_0625_exact [OF assms] by simp

lemma seconds_below:
  fixes t :: int and k :: int
  assumes pt: "binary64 (of_int (k * 1000 - 1) / 1000) < of_int k"
      and ex: "binary64 (of_int k) = of_int k"
  shows "fdiv (of_int t) 1000 < of_int k \<longleftrightarrow> (of_int t :: rat) / 1000 < of_int k"
proof
  assume a: "fdiv (of_int t) 1000 < of_int k"
  show "(of_int t :: rat) / 1000 < of_int k"
  proof (rule ccontr)
    assume "\<not> (of_int t :: rat) / 1000 < of_int k"
    then have "of_int k \<le> (of_int t :: rat) / 1000" by simp
    then have "binary64 (of_int k) \<le> binary64 (of_int t / 1000)" by (rule binary64_mono)
    with a ex show False by (simp add: fdiv_def)
  qed
next
  assume "(of_int t :: rat) / 1000 < of_int k"
  then have "(of_int t :: rat) < of_int (k * 1000)" by simp
  then have "t < k * 1000" by (simp only: of_int_less_iff)
  then have "t \<le> k * 1000 - 1" by simp
  then have "(of_int t :: rat) \<le> of_int (k * 1000 - 1)" by (simp only: of_int_le_iff)
  then have "(of_int t :: rat) / 1000 \<le> of_int (k * 1000 - 1) / 1000"
    by (simp add: divide_right_mono)
  then have "binary64 (of_int t / 1000) \<le> binary64 (of_int (k * 1000 - 1) / 1000)"
    by (rule binary64_mono)
  with pt show "fdiv (of_int t) 1000 < of_int k" by (simp add: fdiv_def)
qed

lemma b64_points:
  "binary64 (29999 / 1000) < 30" "binary64 30 = 30"
  "binary64 (59999 / 1000) < 60" "binary64 60 = 60"
  "binary64 (89999 / 1000) < 90" "binary64 90 = 90"
  by code_simp+

lemma seconds_thresholds:
  fixes t :: int
  shows "fdiv (of_int t) 1000 < 30 \<longleftrightarrow> (of_int t :: rat) / 1000 < 30"
    and "fdiv (of_int t) 1000 < 60 \<longleftrightarrow> (of_int t :: rat) / 1000 < 60"
    and "fdiv (of_int t) 1000 < 90 \<longleftrightarrow> (of_int t :: rat) / 1000 < 90"
  using seconds_below [of 30 t] seconds_below [of 60 t] seconds_below [of 90 t] b64_points
  by simp_all

lemma length_setOf: "length (setOf xs) = card (set xs)"
  by (simp add: setOf_def length_remdups_card_conv)

section \<open>Difficulty classification is by length\<close>

lemma length_lowerUnit: "length (lowerUnit u) = (if u = 304 then 2 else 1)"
  by (simp add: lowerUnit_def)

lemma length_toLowerCaseUnits:
  "length (toLowerCaseUnits w) = length w + count_list w 304"
  by (induction w) (simp_all add: toLowerCaseUnits_def length_lowerUnit)

lemma count_list_absent: "x \<notin> set xs \<Longrightarrow> count_list xs x = 0"
  by (induction xs) auto

lemma of_char_lt_256: "(of_char c :: nat) < 256"
  by (cases c) (simp add: of_char_def)

lemma lowerChar_code: "(of_char (lowerChar c) :: nat) =
  (let n = of_char c in if (65 \<le> n \<and> n \<le> 90) \<or> (192 \<le> n \<and> n \<le> 222 \<and> n \<noteq> 215) then n + 32 else n)"
  using of_char_lt_256 [of c]
  by (auto simp: lowerChar_def Let_def)

lemma lowerUnit_of_char: "lowerUnit (of_char c) = [of_char (lowerChar c)]"
proof -
  have "(of_char c :: nat) \<noteq> 304"
  proof
    assume "(of_char c :: nat) = 304"
    then have "(304 :: nat) < 256" using of_char_lt_256 [of c] by (simp only:)
    then show False by simp
  qed
  then show ?thesis
    by (simp add: lowerUnit_def lowerChar_code Let_def)
qed

text \<open>On the Latin-1 repertoire the two models of \<open>toLowerCase\<close> agree.\<close>

lemma toLowerCaseUnits_codeUnits:
  "toLowerCaseUnits (codeUnits s) = codeUnits (toLowerCase s)"
  by (induction s) (simp_all add: toLowerCaseUnits_def codeUnits_def toLowerCase_def lowerUnit_of_char)

text \<open>
  C5 (amended): for every word \<open>w\<close>, a string over any code units,
  \<open>RandomWordsAPI.estimateDifficulty\<close> returns a tier (it has no failing branch): easy
  when \<open>length w \<le> 5\<close>, medium when \<open>6 \<le> length w \<le> 9\<close> and hard when
  \<open>length w \<ge> 10\<close>, the length being the number of code units.
  \<open>OpenThesaurusAPI.estimateWordDifficulty\<close> returns a tier for every word too, by the
  same bounds on the length of the lower-cased word, which is the length of the word plus
  the number of its code units U+0130. So it classifies by \<open>length w\<close> every word without
  that code unit, and every word of the Latin-1 repertoire.
\<close>

theorem estimateDifficulty_by_length:
  "estimateDifficulty w = (if length w \<le> 5 then Easy else if length w \<le> 9 then Medium else Hard)
   \<and> estimateWordDifficulty u =
       (let n = length u + count_list u 304
        in if n \<le> 5 then Easy else if n \<le> 9 then Medium else Hard)
   \<and> (304 \<notin> set u \<longrightarrow>
        estimateWordDifficulty u =
          (if length u \<le> 5 then Easy else if length u \<le> 9 then Medium else Hard))
   \<and> estimateWordDifficulty (codeUnits s) =
       (if length s \<le> 5 then Easy else if length s \<le> 9 then Medium else Hard)"
proof -
  have a: "estimateDifficulty w
      = (if length w \<le> 5 then Easy else if length w \<le> 9 then Medium else Hard)"
    by (simp add: estimateDifficulty_def Let_def)
  have b: "estimateWordDifficulty v =
       (let n = length v + count_list v 304
        in if n \<le> 5 then Easy else if n \<le> 9 then Medium else Hard)" for v
    by (simp add: estimateWordDifficulty_def length_toLowerCaseUnits Let_def)
  have c: "304 \<notin> set u \<longrightarrow>
        estimateWordDifficulty u =
          (if length u \<le> 5 then Easy else if length u \<le> 9 then Medium else Hard)"
    by (simp add: b count_list_absent Let_def)
  have d: "estimateWordDifficulty (codeUnits s) =
       (if length s \<le> 5 then Easy else if length s \<le> 9 then Medium else Hard)"
    unfolding estimateWordDifficulty_def toLowerCaseUnits_codeUnits
    by (simp add: codeUnits_def toLowerCase_def Let_def)
  show ?thesis using a b [of u] c d by blast
qed

theorem estimateDifficulty_by_length_witness:
  "estimateDifficulty ''hallo'' = Easy \<and> estimateDifficulty ''schule'' = Medium
   \<and> estimateDifficulty ''abenteuer'' = Medium \<and> estimateDifficulty ''wahrscheinlich'' = Hard
   \<and> estimateWordDifficulty (codeUnits ''Tisch'') = Easy
   \<and> estimateWordDifficulty (codeUnits ([CHR 0xDC] @ ''berraschung'')) = Hard
   \<and> estimateWordDifficulty [304, 115, 116, 97, 110, 98, 117, 108] = Medium
   \<and> estimateWordDifficulty [321, 243, 100, 378] = Easy"
proof -
  have n: "(304::nat) \<notin> set [321, 243, 100, 378]" by simp
  have c: "count_list [304, 115, 116, 97, 110, 98, 117, 108] (304::nat) = 1" by simp
  have "304 \<notin> set [321, 243, 100, 378 :: nat] \<longrightarrow>
      estimateWordDifficulty [321, 243, 100, 378] =
        (if length [321, 243, 100, 378 :: nat] \<le> 5 then Easy
         else if length [321, 243, 100, 378 :: nat] \<le> 9 then Medium else Hard)"
    using estimateDifficulty_by_length
      [where u = "[321, 243, 100, 378]" and w = "''hallo''" and s = "''Tisch''"]
    by blast
  then have p1: "estimateWordDifficulty [321, 243, 100, 378] = Easy"
    using n by simp
  have "estimateWordDifficulty [304, 115, 116, 97, 110, 98, 117, 108] =
       (let n = length [304, 115, 116, 97, 110, 98, 117, 108 :: nat]
                + count_list [304, 115, 116, 97, 110, 98, 117, 108] (304 :: nat)
        in if n \<le> 5 then Easy else if n \<le> 9 then Medium else Hard)"
    using estimateDifficulty_by_length
      [where u = "[304, 115, 116, 97, 110, 98, 117, 108]" and w = "''hallo''" and s = "''Tisch''"]
    by blast
  then have p2: "estimateWordDifficulty [304, 115, 116, 97, 110, 98, 117, 108] = Medium"
    unfolding c by (simp add: Let_def)
  have q: "estimateDifficulty v
      = (if length v \<le> 5 then Easy else if length v \<le> 9 then Medium else Hard)"
    for v :: string
    using estimateDifficulty_by_length [where w = v and u = "[]" and s = "[]"] by blast
  have p3: "estimateDifficulty ''hallo'' = Easy" "estimateDifficulty ''schule'' = Medium"
    "estimateDifficulty ''abenteuer'' = Medium" "estimateDifficulty ''wahrscheinlich'' = Hard"
    by (simp_all add: q)
  have t: "estimateWordDifficulty (codeUnits v)
      = (if length v \<le> 5 then Easy else if length v \<le> 9 then Medium else Hard)" for v
    using estimateDifficulty_by_length [where s = v and u = "[]" and w = "''hallo''"] by blast
  have p4: "estimateWordDifficulty (codeUnits ''Tisch'') = Easy"
    "estimateWordDifficulty (codeUnits ([CHR 0xDC] @ ''berraschung'')) = Hard"
    by (simp_all add: t)
  show ?thesis using p1 p2 p3 p4 by blast
qed

text \<open>
  The claim as stated, that both classifiers go by the length of the word, fails for
  \<open>estimateWordDifficulty\<close> on a word with the letter U+0130: the word of five such
  letters has five code units, its lower case has ten, and the classifier returns hard
  where \<open>estimateDifficulty\<close> returns easy.
\<close>

theorem estimateWordDifficulty_dotted_I_counterexample:
  "length [304, 304, 304, 304, 304 :: nat] = 5
   \<and> toLowerCaseUnits [304, 304, 304, 304, 304] = [105, 775, 105, 775, 105, 775, 105, 775, 105, 775]
   \<and> estimateWordDifficulty [304, 304, 304, 304, 304] = Hard
   \<and> estimateDifficulty [304, 304, 304, 304, 304 :: nat] = Easy"
  by (simp add: estimateWordDifficulty_def estimateDifficulty_def toLowerCaseUnits_def
      lowerUnit_def Let_def)

section \<open>Word-match scoring\<close>

text \<open>
  C3: for every list of answers \<open>computeScore\<close> returns as score the number of answers
  marked correct, and \<open>perfect\<close> holds exactly when the score equals the number of answers;
  \<open>updateStreak\<close> reports \<open>passed\<close> exactly when the score is at least the ceiling of
  0.625 times the number of items (for every number of items an array can have; the bound
  \<open>2^50\<close> keeps the product exact). With 8 items a score of 5 passes and a score of 4 does
  not.
\<close>

theorem wordmatch_score_and_pass:
  assumes "totalItems < 2 ^ 50"
  shows "score (computeScore as) = length (filter answerCorrect as)
     \<and> (perfect (computeScore as) \<longleftrightarrow> score (computeScore as) = length as)
     \<and> (passed (updateStreak cur sc totalItems) \<longleftrightarrow> \<lceil>(of_nat totalItems :: rat) * 0.625\<rceil> \<le> int sc)
     \<and> passed (updateStreak cur 5 8) \<and> \<not> passed (updateStreak cur 4 8)"
proof -
  have a: "passed (updateStreak cur sc totalItems) \<longleftrightarrow> \<lceil>(of_nat totalItems :: rat) * 0.625\<rceil> \<le> int sc"
    using assms by (rule passed_iff)
  have b: "passed (updateStreak cur 5 8)" by (simp add: passed_iff)
  have c: "\<not> passed (updateStreak cur 4 8)" by (simp add: passed_iff)
  show ?thesis using a b c by (simp add: computeScore_def Let_def)
qed

theorem wordmatch_score_and_pass_witness:
  "let as = [\<lparr>itemId = ''w1'', pick = KeyA, answerCorrect = True, ms = 900\<rparr>,
             \<lparr>itemId = ''w2'', pick = KeyB, answerCorrect = False, ms = 1200\<rparr>]
   in (2::nat) < 2 ^ 50 \<and> score (computeScore as) = 1 \<and> \<not> perfect (computeScore as)
      \<and> \<not> passed (updateStreak 3 1 2) \<and> passed (updateStreak 3 2 2)"
  using wordmatch_score_and_pass [of 2
    "[\<lparr>itemId = ''w1'', pick = KeyA, answerCorrect = True, ms = 900\<rparr>,
      \<lparr>itemId = ''w2'', pick = KeyB, answerCorrect = False, ms = 1200\<rparr>]" 3 1]
    wordmatch_score_and_pass [of 2 "[]" 3 2]
  by (simp add: Let_def)

section \<open>Hangman scoring\<close>

text \<open>
  C1: for every word, list of guesses and time in milliseconds, a won game scores
  \<open>100 + 15 * (6 - incorrect guesses) + time bonus + efficiency bonus\<close>, where the time
  bonus is 50 below 30 seconds, 30 below 60 seconds, 15 below 90 seconds and 0 otherwise, and
  the efficiency bonus is 50 when the correct guesses are at most the distinct letters of the
  word, 25 when at most two more, and 0 otherwise; \<open>perfect\<close> holds exactly when the game
  is won and no guess of the list is incorrect.
\<close>

theorem calculateScore_win:
  "calculateScore w guesses True t =
     \<lparr>hangmanScore = Finite (100 + 15 * (6 - int (length (filter (\<lambda>g. \<not> correct g) guesses)))
        + timeBonus t + efficiencyBonus (length (filter correct guesses)) (uniqueLetterCount w)),
      hangmanPerfect = (\<forall>g \<in> set guesses. correct g)\<rparr>
   \<and> (hangmanPerfect (calculateScore w guesses success t)
        \<longleftrightarrow> success \<and> (\<forall>g \<in> set guesses. correct g))"
proof -
  have p: "hangmanPerfect (calculateScore w guesses success t)
        \<longleftrightarrow> success \<and> (\<forall>g \<in> set guesses. correct g)" for success
    by (simp add: calculateScore_def Let_def list_ex_iff)
  have "hangmanScore (calculateScore w guesses True t) =
     Finite (100 + 15 * (6 - int (length (filter (\<lambda>g. \<not> correct g) guesses)))
        + timeBonus t + efficiencyBonus (length (filter correct guesses)) (uniqueLetterCount w))"
    by (simp add: calculateScore_def Let_def seconds_thresholds timeBonus_def efficiencyBonus_def
        uniqueLetterCount_def length_setOf)
  with p [of True] show ?thesis using p [of success]
    by (cases "calculateScore w guesses True t") simp
qed

theorem calculateScore_win_witness:
  "calculateScore ''apfel'' (guessesOf ''apfel'' True) True 20000
     = \<lparr>hangmanScore = Finite 290, hangmanPerfect = True\<rparr>"
proof -
  have u: "uniqueLetterCount ''apfel'' = 5" by code_simp
  have g: "length (filter correct (guessesOf ''apfel'' True)) = 5"
     "length (filter (\<lambda>g. \<not> correct g) (guessesOf ''apfel'' True)) = 0"
     "\<forall>g \<in> set (guessesOf ''apfel'' True). correct g"
     "length (guessesOf ''apfel'' True) = 5"
    by (simp_all add: guessesOf_def)
  show ?thesis
    using calculateScore_win [of "''apfel''" "guessesOf ''apfel'' True" 20000 True]
    by (simp add: u g timeBonus_def efficiencyBonus_def)
qed

text \<open>
  C2: a lost game is specified to score the floor of \<open>50 * correctGuesses /
  uniqueLetterCount\<close>. The code divides first and multiplies by 50 afterwards, in binary64
  arithmetic: for a word of 50 distinct letters of which 29 were guessed, \<open>29 / 50\<close> rounds
  below \<open>0.58\<close>, the product rounds to the number just below 29, and the score is 28,
  whereas the exact formula gives 29. Likewise a list of 23 guesses marked correct for a
  word of 5 distinct letters scores 229 instead of 230.
\<close>

theorem calculateScore_loss_rounding:
  "hangmanScore (calculateScore ''abcdefghijklmnopqrstuvwxyz0123456789!#$%&()*+,-./:''
       (guessesOf ''abcdefghijklmnopqrstuvwxyz012'' True) False 120000) = Finite 28
   \<and> uniqueLetterCount ''abcdefghijklmnopqrstuvwxyz0123456789!#$%&()*+,-./:'' = 50
   \<and> length (filter correct (guessesOf ''abcdefghijklmnopqrstuvwxyz012'' True)) = 29
   \<and> \<lfloor>(50 * 29 / 50 :: rat)\<rfloor> = 29
   \<and> hangmanScore (calculateScore ''apfel''
       (guessesOf ''apfelapfelapfelapfelapf'' True) False 120000) = Finite 229
   \<and> uniqueLetterCount ''apfel'' = 5
   \<and> length (filter correct (guessesOf ''apfelapfelapfelapfelapf'' True)) = 23
   \<and> \<lfloor>(50 * 23 / 5 :: rat)\<rfloor> = 230"
  by code_simp

section \<open>User progress\<close>

text \<open>
  C4 (amended): on every submitted result the stored progress of the user changes as
  follows. The new streak is the old streak plus one when the session passed and 0 otherwise;
  the new maximal streak is the maximum of the old maximal streak and the new streak, so it
  never decreases; both are what the response reports. The stored \<open>lastPlayed\<close> becomes
  the seed of the session when that seed is not the empty string, and keeps its old value
  when it is: \<open>updateUserState\<close> writes \<open>lastPlayed\<close> only when it is truthy.
\<close>

theorem submitResult_progress:
  "(let old = getUserState st (reqUserId req);
        p = passed (updateStreak (streak old) (score (computeScore (reqAnswers req)))
              (length (reqAnswers req)));
        new = getUserState (snd (submitResult st req)) (reqUserId req)
    in streak new = (if p then streak old + 1 else 0)
       \<and> maxStreak new = max (maxStreak old) (streak new)
       \<and> maxStreak old \<le> maxStreak new
       \<and> lastPlayed new = (if reqSeed req = [] then lastPlayed old else Some (reqSeed req))
       \<and> respNewStreak (fst (submitResult st req)) = streak new
       \<and> respMaxStreak (fst (submitResult st req)) = maxStreak new)"
  by (simp add: submitResult_def getUserState_def updateUserState_def saveUserResult_def
      updateStreak_def Let_def)

theorem submitResult_progress_witness:
  "streak (getUserState (snd (submitResult
       (updateUserState emptyStore ''max'' \<lparr>streak = 2, maxStreak = 4, lastPlayed = None\<rparr>)
       \<lparr>reqUserId = ''max'', reqSeed = ''2024-01-14:de'',
        reqAnswers = [\<lparr>itemId = ''w1'', pick = KeyB, answerCorrect = True, ms = 900\<rparr>]\<rparr>))
     ''max'') = 3
   \<and> maxStreak (getUserState (snd (submitResult
       (updateUserState emptyStore ''max'' \<lparr>streak = 2, maxStreak = 4, lastPlayed = None\<rparr>)
       \<lparr>reqUserId = ''max'', reqSeed = ''2024-01-14:de'',
        reqAnswers = [\<lparr>itemId = ''w1'', pick = KeyB, answerCorrect = True, ms = 900\<rparr>]\<rparr>))
     ''max'') = 4
   \<and> lastPlayed (getUserState (snd (submitResult
       (updateUserState emptyStore ''max'' \<lparr>streak = 2, maxStreak = 4, lastPlayed = None\<rparr>)
       \<lparr>reqUserId = ''max'', reqSeed = ''2024-01-14:de'',
        reqAnswers = [\<lparr>itemId = ''w1'', pick = KeyB, answerCorrect = True, ms = 900\<rparr>]\<rparr>))
     ''max'') = Some ''2024-01-14:de''
   \<and> streak (getUserState (snd (submitResult
       (updateUserState emptyStore ''max'' \<lparr>streak = 5, maxStreak = 5, lastPlayed = None\<rparr>)
       \<lparr>reqUserId = ''max'', reqSeed = ''2024-01-14:de'',
        reqAnswers = [\<lparr>itemId = ''w1'', pick = KeyA, answerCorrect = False, ms = 900\<rparr>]\<rparr>))
     ''max'') = 0
   \<and> maxStreak (getUserState (snd (submitResult
       (updateUserState emptyStore ''max'' \<lparr>streak = 5, maxStreak = 5, lastPlayed = None\<rparr>)
       \<lparr>reqUserId = ''max'', reqSeed = ''2024-01-14:de'',
        reqAnswers = [\<lparr>itemId = ''w1'', pick = KeyA, answerCorrect = False, ms = 900\<rparr>]\<rparr>))
     ''max'') = 5"
proof -
  have p: "passed (updateStreak 2 1 1)" "\<not> passed (updateStreak 5 0 1)"
    by (simp_all add: passed_iff)
  have o: "getUserState (updateUserState emptyStore ''max''
             \<lparr>streak = a, maxStreak = b, lastPlayed = None\<rparr>) ''max''
           = \<lparr>streak = a, maxStreak = b, lastPlayed = None\<rparr>" for a b
    by (simp add: getUserState_def updateUserState_def emptyStore_def)
  show ?thesis
    using submitResult_progress [of
        "updateUserState emptyStore ''max'' \<lparr>streak = 2, maxStreak = 4, lastPlayed = None\<rparr>"
        "\<lparr>reqUserId = ''max'', reqSeed = ''2024-01-14:de'',
          reqAnswers = [\<lparr>itemId = ''w1'', pick = KeyB, answerCorrect = True, ms = 900\<rparr>]\<rparr>"]
      submitResult_progress [of
        "updateUserState emptyStore ''max'' \<lparr>streak = 5, maxStreak = 5, lastPlayed = None\<rparr>"
        "\<lparr>reqUserId = ''max'', reqSeed = ''2024-01-14:de'',
          reqAnswers = [\<lparr>itemId = ''w1'', pick = KeyA, answerCorrect = False, ms = 900\<rparr>]\<rparr>"]
      p
    by (simp add: Let_def o computeScore_def)
qed

text \<open>
  The claim as stated, that \<open>lastPlayed\<close> is set to the seed on every submitted result,
  fails for the empty seed: after a session with seed \<open>2024-01-14:de\<close>, a submission with
  seed \<open>''\<close> leaves \<open>lastPlayed\<close> at \<open>2024-01-14:de\<close>.
\<close>

theorem submitResult_empty_seed_counterexample:
  "userLastPlayed (snd (submitResult
      (snd (submitResult emptyStore
         \<lparr>reqUserId = ''max'', reqSeed = ''2024-01-14:de'', reqAnswers = []\<rparr>))
      \<lparr>reqUserId = ''max'', reqSeed = '''', reqAnswers = []\<rparr>)) ''max''
     = Some ''2024-01-14:de''
   \<and> lastPlayed (getUserState (snd (submitResult
      (snd (submitResult emptyStore
         \<lparr>reqUserId = ''max'', reqSeed = ''2024-01-14:de'', reqAnswers = []\<rparr>))
      \<lparr>reqUserId = ''max'', reqSeed = '''', reqAnswers = []\<rparr>)) ''max'')
     \<noteq> Some ''''"
  by (simp add: submitResult_def getUserState_def updateUserState_def saveUserResult_def
      emptyStore_def Let_def)

section \<open>The seeded shuffle\<close>

text \<open>
  The random index \<open>Math.floor((hash / 233280) * currentIndex)\<close> is below
  \<open>currentIndex\<close> for every hash the recurrence produces, and it is not negative when the
  hash is not negative.
\<close>

lemma binary64_neg: 
  assumes "x < 0" shows "binary64 x < 0"
proof -
  have p: "0 < - x" using assms by simp
  have "(0::rat) < 2 powi exponent2 (- x)" by simp
  then have "0 < binary64 (- x)" using binary64_range(1) [OF p] by linarith
  then show ?thesis by (simp add: binary64_minus)
qed

lemma b64_top: "binary64 (233279 / 233280) \<le> 1 - 1 / 2 ^ 18"
  by code_simp

lemma randomIndex_upper:
  fixes h :: int and c :: nat
  assumes h: "h < 233280" and c: "1 \<le> c"
  shows "\<lfloor>fmul (fdiv (of_int h) 233280) (of_nat c)\<rfloor> < int c"
proof -
  define x where "x = binary64 (of_int h / 233280)"
  define y where "y = x * of_nat c"
  have cpos: "(0::rat) < of_nat c" using c by simp
  have "h \<le> 233279" using h by simp
  then have "(of_int h :: rat) \<le> of_int 233279" by (simp only: of_int_le_iff)
  then have "(of_int h :: rat) / 233280 \<le> 233279 / 233280" by simp
  then have "x \<le> binary64 (233279 / 233280)" unfolding x_def by (rule binary64_mono)
  then have x: "x \<le> 1 - 1 / 2 ^ 18" using b64_top by linarith
  have yle: "y \<le> (1 - 1 / 2 ^ 18) * of_nat c"
    unfolding y_def using x cpos by (intro mult_right_mono) simp_all
  have "binary64 y < of_nat c"
  proof (cases "0 \<le> y")
    case True
    have "binary64 y \<le> y + \<bar>y\<bar> / 2 ^ 53" using binary64_error [of y] by linarith
    also have "\<dots> = y * (1 + 1 / 2 ^ 53)" using True by (simp add: algebra_simps)
    also have "\<dots> \<le> ((1 - 1 / 2 ^ 18) * of_nat c) * (1 + 1 / 2 ^ 53)"
      using yle by (intro mult_right_mono) simp_all
    also have "\<dots> = of_nat c * ((1 - 1 / 2 ^ 18) * (1 + 1 / 2 ^ 53))" by (simp add: algebra_simps)
    also have "\<dots> < of_nat c * 1"
      using cpos by (intro mult_strict_left_mono) simp_all
    finally show ?thesis by simp
  next
    case False
    then have "binary64 y < 0" by (intro binary64_neg) simp
    then show ?thesis using cpos by linarith
  qed
  then show ?thesis by (simp add: fmul_def fdiv_def x_def y_def floor_less_iff)
qed

lemma randomIndex_lower:
  fixes h :: int and c :: nat
  assumes "0 \<le> h"
  shows "0 \<le> \<lfloor>fmul (fdiv (of_int h) 233280) (of_nat c)\<rfloor>"
proof -
  have "(0::rat) \<le> of_int h / 233280" using assms by simp
  then have "0 \<le> binary64 (of_int h / 233280)" by (rule binary64_nonneg)
  then have "0 \<le> binary64 (of_int h / 233280) * of_nat c" by simp
  then have "0 \<le> binary64 (binary64 (of_int h / 233280) * of_nat c)" by (rule binary64_nonneg)
  then show ?thesis by (simp add: fmul_def fdiv_def)
qed

lemma jsRem_upper:
  assumes "0 < b"
  shows "jsRem a b < b"
proof (cases "0 \<le> a")
  case True
  then show ?thesis using assms by (simp add: jsRem_def sgn_if)
next
  case False
  have m: "0 \<le> (- a) mod b" using assms by simp
  have "jsRem a b = - ((- a) mod b)" using False assms by (simp add: jsRem_def sgn_if)
  then show ?thesis using m assms by linarith
qed

lemma jsRem_nonneg: "0 \<le> a \<Longrightarrow> 0 < b \<Longrightarrow> 0 \<le> jsRem a b"
  by (simp add: jsRem_def sgn_if)

lemma jsRem_nat: "0 \<le> a \<Longrightarrow> 0 < b \<Longrightarrow> jsRem a b = a mod b"
  by (simp add: jsRem_def sgn_if)

lemma length_arraySet:
  "i < int (length (elems a)) \<Longrightarrow> length (elems (arraySet a i v)) = length (elems a)"
  by (simp add: arraySet_def)

lemma length_shuffleLoop:
  "n \<le> length (elems a) \<Longrightarrow> length (elems (shuffleLoop n h a)) = length (elems a)"
proof (induction n arbitrary: h a)
  case 0
  then show ?case by simp
next
  case (Suc n)
  define h1 where "h1 = jsRem (h * 9301 + 49297) 233280"
  define r where "r = \<lfloor>fmul (fdiv (of_int h1) 233280) (of_nat (Suc n))\<rfloor>"
  define a1 where "a1 = arraySet a (int n) (arrayGet a r)"
  define a2 where "a2 = arraySet a1 r (arrayGet a (int n))"
  have "h1 < 233280" unfolding h1_def by (rule jsRem_upper) simp
  then have r: "r < int (Suc n)" unfolding r_def by (intro randomIndex_upper) simp_all
  have l1: "length (elems a1) = length (elems a)"
    unfolding a1_def using Suc.prems by (intro length_arraySet) simp
  have l2: "length (elems a2) = length (elems a)"
    unfolding a2_def using Suc.prems r l1 by (subst length_arraySet) simp_all
  have "shuffleLoop (Suc n) h a = shuffleLoop n h1 a2"
    by (simp add: Let_def h1_def r_def a1_def a2_def)
  then show ?case using Suc.IH [of a2 h1] Suc.prems l2 by simp
qed

lemma length_seededShuffle: "length (seededShuffle xs sd) = length xs"
  by (simp add: seededShuffle_def length_shuffleLoop arrayFrom_def)

lemma mset_shuffleLoop:
  "0 \<le> h \<Longrightarrow> n \<le> length (elems a) \<Longrightarrow> mset (elems (shuffleLoop n h a)) = mset (elems a)"
proof (induction n arbitrary: h a)
  case 0
  then show ?case by simp
next
  case (Suc n)
  define h1 where "h1 = jsRem (h * 9301 + 49297) 233280"
  define r where "r = \<lfloor>fmul (fdiv (of_int h1) 233280) (of_nat (Suc n))\<rfloor>"
  define a1 where "a1 = arraySet a (int n) (arrayGet a r)"
  define a2 where "a2 = arraySet a1 r (arrayGet a (int n))"
  have hh: "0 \<le> h * 9301 + 49297" using Suc.prems(1) by simp
  have h1: "0 \<le> h1" "h1 < 233280"
    unfolding h1_def using hh by (simp_all add: jsRem_nonneg jsRem_upper)
  have r0: "0 \<le> r" unfolding r_def using h1(1) by (rule randomIndex_lower)
  have r1: "r < int (Suc n)" unfolding r_def using h1(2) by (rule randomIndex_upper) simp
  note r = r0 r1
  have n: "n < length (elems a)" using Suc.prems(2) by simp
  have rn: "nat r < length (elems a)" using r n by linarith
  have e2: "elems a2 = (elems a)[n := elems a ! nat r, nat r := elems a ! n]"
    using r n rn by (simp add: a2_def a1_def arraySet_def arrayGet_def)
  have "mset (elems a2) = mset (elems a)"
    unfolding e2 using rn n by (rule mset_swap)
  moreover have "length (elems a2) = length (elems a)" by (simp add: e2)
  moreover have "shuffleLoop (Suc n) h a = shuffleLoop n h1 a2"
    by (simp add: Let_def h1_def r_def a1_def a2_def)
  ultimately show ?case using Suc.IH [of h1 a2] Suc.prems h1 by simp
qed

lemma seededShuffle_permutation:
  "0 \<le> hashSeed sd \<Longrightarrow> mset (seededShuffle xs sd) = mset (map Some xs)"
  by (simp add: seededShuffle_def mset_shuffleLoop arrayFrom_def)

text \<open>
  C10: \<open>seededShuffle\<close> is claimed to return a permutation of its input for every seed,
  negative hash values included. It does so when the hash of the seed is not negative
  (\<open>seededShuffle_permutation\<close>). The remainder \<open>%\<close> of a negative dividend is not
  positive; a negative hash then gives a negative random index, the read
  \<open>shuffled[randomIndex]\<close> yields \<open>undefined\<close> and the swap stores it in the array: for
  the seed of 15 January 2024, whose hash is negative, an array of three elements
  comes back as three times \<open>undefined\<close>, and the default word bank comes back with
  six of its twelve items and six \<open>undefined\<close> slots.
\<close>

theorem seededShuffle_negative_hash:
  "hashSeed ''2024-01-15:de'' = - 1268580104
   \<and> seededShuffle [1, 2, 3 :: nat] ''2024-01-15:de'' = [None, None, None]
   \<and> map (map_option itemKey) (seededShuffle GERMAN_WORD_BANK ''2024-01-15:de'')
       = [Some ''w2'', Some ''w3'', Some ''w7'', Some ''w6'', None, Some ''w10'', Some ''w9'',
          None, None, None, None, None]"
  by code_simp

section \<open>Daily puzzles are created once\<close>

lemma splitOn_nonempty: "splitOn c s \<noteq> []"
  by (induction s) (auto split: list.splits)

lemma splitOn_head:
  "x \<noteq> c \<Longrightarrow> \<exists>h t. splitOn c (x # s) = (x # h) # t"
  using splitOn_nonempty [of c s] by (cases "splitOn c s") simp_all

lemma generatePuzzleFromBank_valid:
  assumes "c \<noteq> CHR '':''"
  shows "\<exists>p. fst (generatePuzzleFromBank st (c # rest)) = Inr p
            \<and> puzzleId p = c # rest
            \<and> items p = map slotOf (selectRandomItems (bankOf st) 8 (c # rest))"
proof -
  obtain h t where s: "splitOn CHR '':'' (c # rest) = (c # h) # t"
    using splitOn_head [OF assms] by blast
  show ?thesis
    unfolding generatePuzzleFromBank_def bankOf_def s
    by (cases "getWordBank st ''de''") (simp_all add: Let_def)
qed

lemma generatePuzzleFromBank_cache:
  "wmPuzzle (snd (generatePuzzleFromBank st sd)) = wmPuzzle st"
  unfolding generatePuzzleFromBank_def
  by (cases "getWordBank st ''de''")
     (simp_all add: Let_def saveWordBank_def split: list.split)

text \<open>
  When the hash of the seed is not negative, every slot of the shuffled array holds an
  element: the array is \<open>perm\<close>, a permutation of the input.
\<close>

lemma map_Some_the: "\<forall>y \<in> set ys. \<exists>x. y = Some x \<Longrightarrow> map Some (map the ys) = ys"
  by (induction ys) auto

lemma seededShuffle_defined:
  assumes "0 \<le> hashSeed sd"
  shows "\<exists>perm. mset perm = mset xs \<and> seededShuffle xs sd = map Some perm"
proof -
  let ?ys = "seededShuffle xs sd"
  have m: "mset ?ys = mset (map Some xs)"
    using assms by (rule seededShuffle_permutation)
  then have "set ?ys = set (map Some xs)" by (rule mset_eq_setD)
  then have "\<forall>y \<in> set ?ys. \<exists>x. y = Some x" by auto
  then have e: "map Some (map the ?ys) = ?ys"
    by (rule map_Some_the)
  have "mset (map the ?ys) = image_mset the (mset ?ys)" by simp
  also have "\<dots> = image_mset the (mset (map Some xs))" by (simp only: m)
  also have "\<dots> = mset xs" by (simp add: multiset.map_comp comp_def)
  finally have "mset (map the ?ys) = mset xs" .
  then show ?thesis using e by metis
qed

lemma jsonSlot_Item: "map jsonSlot (map Item xs) = map Item xs"
  by (induction xs) simp_all

lemma slotOf_Some: "map slotOf (map Some xs) = map Item xs"
  by (induction xs) simp_all

lemma jsonPuzzle_items: "items p = map Item xs \<Longrightarrow> jsonPuzzle p = p"
  by (simp add: jsonPuzzle_def jsonSlot_Item)

text \<open>
  C8 (amended): for every seed that begins with a character other than the colon (so that
  its date part is not empty) and whose hash is not negative, \<open>getDailyPuzzle\<close> returns a
  puzzle and leaves it cached under the seed. When the puzzle was not cached before, its
  items are the first 8 entries of the seeded shuffle of the word bank, a permutation of the
  bank (all of its entries when the bank has fewer than 8). Every later call for the same
  seed, from any store that still holds the cached puzzle and whatever has become of the
  word bank, returns the same puzzle and does not modify the store.
\<close>

theorem getDailyPuzzle_idempotent:
  assumes "c \<noteq> CHR '':''" and "0 \<le> hashSeed (c # rest)"
  shows "case getDailyPuzzle st (c # rest) of
           (Inl e, st1) \<Rightarrow> False
         | (Inr p, st1) \<Rightarrow>
             wmPuzzle st1 (c # rest) = Some p
             \<and> (wmPuzzle st (c # rest) = None \<longrightarrow>
                  (\<exists>perm. mset perm = mset (bankOf st)
                     \<and> seededShuffle (bankOf st) (c # rest) = map Some perm
                     \<and> items p = map Item (take 8 perm)))
             \<and> (\<forall>st2. wmPuzzle st2 (c # rest) = Some p \<longrightarrow>
                   getDailyPuzzle st2 (c # rest) = (Inr p, st2))"
proof (cases "wmPuzzle st (c # rest)")
  case (Some p)
  then show ?thesis by (simp add: getDailyPuzzle_def getPuzzle_def)
next
  case None
  obtain p where p: "fst (generatePuzzleFromBank st (c # rest)) = Inr p"
      "puzzleId p = c # rest"
      "items p = map slotOf (selectRandomItems (bankOf st) 8 (c # rest))"
    using generatePuzzleFromBank_valid [OF assms(1)] by blast
  obtain st1 where g: "generatePuzzleFromBank st (c # rest) = (Inr p, st1)"
    using p(1) by (cases "generatePuzzleFromBank st (c # rest)") simp
  obtain perm where perm: "mset perm = mset (bankOf st)"
      "seededShuffle (bankOf st) (c # rest) = map Some perm"
    using seededShuffle_defined [OF assms(2)] by blast
  have i: "items p = map Item (take 8 perm)"
    by (simp add: p(3) selectRandomItems_def perm(2) slotOf_Some add: take_map)
  have j: "jsonPuzzle p = p" using i by (rule jsonPuzzle_items)
  have r: "getDailyPuzzle st (c # rest) = (Inr p, savePuzzle st1 p)"
    using None by (simp add: getDailyPuzzle_def getPuzzle_def g)
  have "\<exists>perm. mset perm = mset (bankOf st)
      \<and> seededShuffle (bankOf st) (c # rest) = map Some perm
      \<and> items p = map Item (take 8 perm)"
    using perm i by blast
  then show ?thesis
    unfolding r using p(2) j
    by (simp add: savePuzzle_def getDailyPuzzle_def getPuzzle_def)
qed

theorem getDailyPuzzle_idempotent_witness:
  "\<exists>p. fst (getDailyPuzzle emptyStore ''2025-11-02:de'') = Inr p
      \<and> length (items p) = 8
      \<and> Undefined \<notin> set (items p) \<and> Null \<notin> set (items p)
      \<and> fst (getDailyPuzzle
             (saveWordBank (snd (getDailyPuzzle emptyStore ''2025-11-02:de'')) ''de''
                (GERMAN_WORD_BANK @ GERMAN_WORD_BANK))
             ''2025-11-02:de'') = Inr p"
proof -
  have c: "CHR ''2'' \<noteq> CHR '':''" by simp
  have h: "0 \<le> hashSeed ''2025-11-02:de''" by code_simp
  have e: "wmPuzzle emptyStore ''2025-11-02:de'' = None" by (simp add: emptyStore_def)
  have b: "bankOf emptyStore = GERMAN_WORD_BANK"
    by (simp add: bankOf_def getWordBank_def emptyStore_def)
  have b12: "length GERMAN_WORD_BANK = 12" by (simp add: GERMAN_WORD_BANK_def)
  obtain r st1 where g: "getDailyPuzzle emptyStore ''2025-11-02:de'' = (r, st1)"
    by (cases "getDailyPuzzle emptyStore ''2025-11-02:de''")
  show ?thesis
  proof (cases r)
    case (Inl e1)
    then show ?thesis
      using getDailyPuzzle_idempotent [OF c h, where st = emptyStore] g by simp
  next
    case (Inr p)
    then have F: "wmPuzzle st1 ''2025-11-02:de'' = Some p
       \<and> (\<exists>perm. mset perm = mset GERMAN_WORD_BANK
             \<and> seededShuffle GERMAN_WORD_BANK ''2025-11-02:de'' = map Some perm
             \<and> items p = map Item (take 8 perm))
       \<and> (\<forall>st2. wmPuzzle st2 ''2025-11-02:de'' = Some p \<longrightarrow>
              getDailyPuzzle st2 ''2025-11-02:de'' = (Inr p, st2))"
      using getDailyPuzzle_idempotent [OF c h, where st = emptyStore] g e b
      by auto
    then obtain perm where perm: "mset perm = mset GERMAN_WORD_BANK"
        "items p = map Item (take 8 perm)"
      by blast
    have "length perm = 12" using perm(1) b12 by (metis size_mset)
    then have l: "length (items p) = 8" by (simp add: perm(2))
    have a: "Undefined \<notin> set (items p) \<and> Null \<notin> set (items p)"
      unfolding perm(2) by auto
    have "wmPuzzle (saveWordBank st1 ''de'' (GERMAN_WORD_BANK @ GERMAN_WORD_BANK))
            ''2025-11-02:de'' = Some p"
      using F by (simp add: saveWordBank_def)
    then have "getDailyPuzzle (saveWordBank st1 ''de'' (GERMAN_WORD_BANK @ GERMAN_WORD_BANK))
            ''2025-11-02:de''
          = (Inr p, saveWordBank st1 ''de'' (GERMAN_WORD_BANK @ GERMAN_WORD_BANK))"
      using F by blast
    then show ?thesis using g Inr l a by simp
  qed
qed

text \<open>
  The claim as stated, for every seed string and with 8 items, fails in two ways. For the
  seed \<open>:de\<close>, whose date part is empty, and a store without a puzzle,
  \<open>getDailyPuzzle\<close> throws \<open>Invalid seed format\<close>, on the first call and again on the
  second, and returns no puzzle. And a puzzle has fewer than 8 items when the stored bank
  has: from a bank of three items the puzzle of \<open>2025-11-02:de\<close> has three.
\<close>

theorem getDailyPuzzle_invalid_seed_counterexample:
  "fst (getDailyPuzzle emptyStore '':de'') = Inl InvalidSeedFormat
   \<and> fst (getDailyPuzzle (snd (getDailyPuzzle emptyStore '':de'')) '':de'') = Inl InvalidSeedFormat
   \<and> map (map_slot itemKey)
        (items (projr (fst (getDailyPuzzle
           (saveWordBank emptyStore ''de'' (take 3 GERMAN_WORD_BANK)) ''2025-11-02:de''))))
      = [Item ''w2'', Item ''w1'', Item ''w3'']"
proof -
  have "fst (getDailyPuzzle emptyStore '':de'') = Inl InvalidSeedFormat
   \<and> fst (getDailyPuzzle (snd (getDailyPuzzle emptyStore '':de'')) '':de'') = Inl InvalidSeedFormat"
    by (simp add: getDailyPuzzle_def getPuzzle_def generatePuzzleFromBank_def getWordBank_def
        saveWordBank_def emptyStore_def Let_def)
  moreover have "map (map_slot itemKey)
        (items (projr (fst (getDailyPuzzle
           (saveWordBank emptyStore ''de'' (take 3 GERMAN_WORD_BANK)) ''2025-11-02:de''))))
      = [Item ''w2'', Item ''w1'', Item ''w3'']"
    by code_simp
  ultimately show ?thesis by blast
qed

section \<open>The word pool\<close>

subsection \<open>Lower case and trimming\<close>

lemma lowerChar_idem: "lowerChar (lowerChar c) = lowerChar c"
proof -
  have "(of_char (lowerChar (lowerChar c)) :: nat) = of_char (lowerChar c)"
    by (simp add: lowerChar_code Let_def)
  then show ?thesis by (metis char_of_char)
qed

lemma isWhiteSpace_lowerChar: "isWhiteSpace (lowerChar c) = isWhiteSpace c"
  by (auto simp add: isWhiteSpace_def lowerChar_code Let_def)

lemma toLowerCase_idem: "toLowerCase (toLowerCase s) = toLowerCase s"
  by (simp add: toLowerCase_def lowerChar_idem)

lemma dropWhile_ws_lower:
  "dropWhile isWhiteSpace (map lowerChar s) = map lowerChar (dropWhile isWhiteSpace s)"
  by (induction s) (simp_all add: isWhiteSpace_lowerChar)

lemma toLowerCase_trim: "toLowerCase (trim s) = trim (toLowerCase s)"
  by (simp add: toLowerCase_def trim_def rev_map dropWhile_ws_lower)

lemma normalized_lower: "toLowerCase (trim (toLowerCase w)) = trim (toLowerCase w)"
  by (simp add: toLowerCase_trim toLowerCase_idem)

lemma initialize_idem: "initialize (initialize s) = initialize s"
  by (simp add: initialize_def)

lemma initialize_initialized: "isInitialized (initialize s)"
  by (simp add: initialize_def)

lemma initialize_redis: "redisWords (initialize s) = redisWords s"
  by (simp add: initialize_def)

lemma initialize_id: "isInitialized s \<Longrightarrow> initialize s = s"
  by (simp add: initialize_def)

lemma map_of_hSet: "map_of (hSet kvs k v) k = Some v"
  by (induction kvs k v rule: hSet.induct) simp_all

lemma allWords_pushWord:
  "set (allWords (pushWord s d e)) = insert e (set (allWords s))"
  by (cases d) (auto simp: allWords_def pushWord_def)

lemma addWord_existing:
  assumes "list_ex (\<lambda>e. toLowerCase (word e) = trim (toLowerCase w)) (allWords (initialize s))"
  shows "addWord s w h d = (False, initialize s)"
  using assms by (simp add: addWord_def Let_def)

lemma addWord_new:
  assumes "\<not> list_ex (\<lambda>e. toLowerCase (word e) = trim (toLowerCase w)) (allWords (initialize s))"
  shows "addWord s w h d =
     (True, saveToRedis
        (pushWord (initialize s)
           (case d of Some t \<Rightarrow> t | None \<Rightarrow> estimateDifficulty (trim (toLowerCase w)))
           \<lparr>word = trim (toLowerCase w), hint = h\<rparr>)
        (case d of Some t \<Rightarrow> t | None \<Rightarrow> estimateDifficulty (trim (toLowerCase w)))
        [\<lparr>word = trim (toLowerCase w), hint = h\<rparr>])"
  using assms by (simp add: addWord_def Let_def)

lemma saveToRedis_fields:
  "enrichedWords (saveToRedis s d ws) = enrichedWords s"
  "isInitialized (saveToRedis s d ws) = isInitialized s"
  by (simp_all add: saveToRedis_def)

lemma saveToRedis_single:
  "redisWords (saveToRedis s d [\<lparr>word = n, hint = h\<rparr>])
     = (if n = ''__proto__'' then redisWords s
        else (redisWords s)(d := hSet (redisWords s d) n (if h = [] then lettersHint n else h)))"
  by (simp add: saveToRedis_def assignProperty_def)

lemma pushWord_fields:
  "isInitialized (pushWord s d e) = isInitialized s"
  "redisWords (pushWord s d e) = redisWords s"
  "enrichedWords (pushWord s d e) = (enrichedWords s)(d := enrichedWords s d @ [e])"
  by (simp_all add: pushWord_def)

lemma addWord_initialized: "isInitialized (snd (addWord s w h d))"
  by (cases "list_ex (\<lambda>e. toLowerCase (word e) = trim (toLowerCase w)) (allWords (initialize s))")
     (simp_all add: addWord_existing addWord_new saveToRedis_fields pushWord_fields
        initialize_initialized)

lemma addWord_present:
  "list_ex (\<lambda>e. toLowerCase (word e) = trim (toLowerCase w)) (allWords (snd (addWord s w h d)))"
proof (cases "list_ex (\<lambda>e. toLowerCase (word e) = trim (toLowerCase w)) (allWords (initialize s))")
  case True
  then show ?thesis by (simp add: addWord_existing)
next
  case False
  let ?t = "case d of Some t \<Rightarrow> t | None \<Rightarrow> estimateDifficulty (trim (toLowerCase w))"
  let ?e = "\<lparr>word = trim (toLowerCase w), hint = h\<rparr>"
  have "allWords (saveToRedis (pushWord (initialize s) ?t ?e) ?t [?e])
        = allWords (pushWord (initialize s) ?t ?e)"
    by (simp add: allWords_def saveToRedis_fields)
  then have "?e \<in> set (allWords (snd (addWord s w h d)))"
    using False by (simp add: addWord_new allWords_pushWord)
  moreover have "toLowerCase (word ?e) = trim (toLowerCase w)" by (simp add: normalized_lower)
  ultimately show ?thesis unfolding list_ex_iff by blast
qed

lemma addWord_again:
  assumes "trim (toLowerCase w') = trim (toLowerCase w)"
  shows "fst (addWord (snd (addWord s w h d)) w' h' d') = False"
proof -
  have "initialize (snd (addWord s w h d)) = snd (addWord s w h d)"
    using addWord_initialized by (rule initialize_id)
  then show ?thesis
    using addWord_present [of w s h d] assms by (simp add: addWord_existing)
qed

text \<open>
  What \<open>addWord\<close> does, for every word and hint: it normalizes the word by lower-casing
  and trimming. When the normalized word already exists, case ignored, in any of the three
  tiers it returns false and the state is the initialized pool, with no tier and no stored
  hash modified (the pool itself when it was initialized already). Otherwise it returns
  true, the tier given (or, when none is given, the tier the classifier assigns to the
  normalized word) gains the new entry at its end and the other tiers are unchanged; the
  hash of that tier in the store then maps the word to its hint, unless the normalized word
  is \<open>__proto__\<close>, and the other hashes are unchanged. A second addition of a word with
  the same normalization returns false.
\<close>

lemma addWord_effect:
  "(let n = trim (toLowerCase w);
        s0 = initialize s;
        tier = (case d of Some t \<Rightarrow> t | None \<Rightarrow> estimateDifficulty n);
        r = addWord s w h d
    in redisWords s0 = redisWords s
     \<and> (isInitialized s \<longrightarrow> s0 = s)
     \<and> ((\<exists>e \<in> set (allWords s0). toLowerCase (word e) = n) \<longrightarrow> r = (False, s0))
     \<and> (\<not> (\<exists>e \<in> set (allWords s0). toLowerCase (word e) = n) \<longrightarrow>
           fst r = True
         \<and> enrichedWords (snd r)
             = (enrichedWords s0)(tier := enrichedWords s0 tier @ [\<lparr>word = n, hint = h\<rparr>])
         \<and> (n \<noteq> ''__proto__'' \<longrightarrow>
              map_of (redisWords (snd r) tier) n = Some (if h = [] then lettersHint n else h))
         \<and> (n = ''__proto__'' \<longrightarrow> redisWords (snd r) = redisWords s)
         \<and> (\<forall>t. t \<noteq> tier \<longrightarrow> redisWords (snd r) t = redisWords s t))
     \<and> (\<forall>w' h' d'. trim (toLowerCase w') = n \<longrightarrow> fst (addWord (snd r) w' h' d') = False))"
proof -
  let ?n = "trim (toLowerCase w)"
  let ?s0 = "initialize s"
  let ?tier = "case d of Some t \<Rightarrow> t | None \<Rightarrow> estimateDifficulty ?n"
  let ?r = "addWord s w h d"
  have a: "redisWords ?s0 = redisWords s" by (rule initialize_redis)
  have b: "isInitialized s \<longrightarrow> ?s0 = s" by (simp add: initialize_id)
  have c: "(\<exists>e \<in> set (allWords ?s0). toLowerCase (word e) = ?n) \<longrightarrow> ?r = (False, ?s0)"
    by (simp add: addWord_existing list_ex_iff)
  have d: "\<not> (\<exists>e \<in> set (allWords ?s0). toLowerCase (word e) = ?n) \<longrightarrow>
           fst ?r = True
         \<and> enrichedWords (snd ?r)
             = (enrichedWords ?s0)(?tier := enrichedWords ?s0 ?tier @ [\<lparr>word = ?n, hint = h\<rparr>])
         \<and> (?n \<noteq> ''__proto__'' \<longrightarrow>
              map_of (redisWords (snd ?r) ?tier) ?n = Some (if h = [] then lettersHint ?n else h))
         \<and> (?n = ''__proto__'' \<longrightarrow> redisWords (snd ?r) = redisWords s)
         \<and> (\<forall>t. t \<noteq> ?tier \<longrightarrow> redisWords (snd ?r) t = redisWords s t)"
  proof (intro impI)
    assume nx: "\<not> (\<exists>e \<in> set (allWords ?s0). toLowerCase (word e) = ?n)"
    have r: "addWord s w h d
        = (True, saveToRedis (pushWord ?s0 ?tier \<lparr>word = ?n, hint = h\<rparr>) ?tier
                   [\<lparr>word = ?n, hint = h\<rparr>])"
      using nx by (simp add: addWord_new list_ex_iff)
    show "fst ?r = True
         \<and> enrichedWords (snd ?r)
             = (enrichedWords ?s0)(?tier := enrichedWords ?s0 ?tier @ [\<lparr>word = ?n, hint = h\<rparr>])
         \<and> (?n \<noteq> ''__proto__'' \<longrightarrow>
              map_of (redisWords (snd ?r) ?tier) ?n = Some (if h = [] then lettersHint ?n else h))
         \<and> (?n = ''__proto__'' \<longrightarrow> redisWords (snd ?r) = redisWords s)
         \<and> (\<forall>t. t \<noteq> ?tier \<longrightarrow> redisWords (snd ?r) t = redisWords s t)"
      unfolding r
      by (simp add: saveToRedis_fields pushWord_fields saveToRedis_single initialize_redis
          map_of_hSet)
  qed
  have e: "\<forall>w' h' d'. trim (toLowerCase w') = ?n \<longrightarrow> fst (addWord (snd ?r) w' h' d') = False"
    using addWord_again by blast
  show ?thesis unfolding Let_def using a b c d e by blast
qed

text \<open>
  C6: \<open>addWord\<close> is claimed to persist every word that it adds. It does so for every
  word but one (\<open>addWord_effect\<close>). The word \<open>__proto__\<close>, which is its own
  normalization, is new to the empty pool: \<open>addWord\<close> returns true and appends it to the
  medium tier (it has nine letters), and no hash of the store gains a field, because the
  object that \<open>saveToRedis\<close> hands to \<open>hSet\<close> has no property. A pool that is loaded from
  the store afterwards does not hold the word. The word \<open>Apfel\<close>, added the same way, is
  in the store, and a second addition of \<open>apfel\<close> followed by a blank returns false.
\<close>

theorem addWord_proto_not_persisted:
  "trim (toLowerCase ''__proto__'') = ''__proto__''
   \<and> fst (addWord emptyEnricher ''__proto__'' ''a hint'' None) = True
   \<and> enrichedWords (snd (addWord emptyEnricher ''__proto__'' ''a hint'' None)) Medium
       = [\<lparr>word = ''__proto__'', hint = ''a hint''\<rparr>]
   \<and> redisWords (snd (addWord emptyEnricher ''__proto__'' ''a hint'' None)) Easy = []
   \<and> redisWords (snd (addWord emptyEnricher ''__proto__'' ''a hint'' None)) Medium = []
   \<and> redisWords (snd (addWord emptyEnricher ''__proto__'' ''a hint'' None)) Hard = []
   \<and> enrichedWords
        (initialize (emptyEnricher\<lparr>redisWords :=
           redisWords (snd (addWord emptyEnricher ''__proto__'' ''a hint'' None))\<rparr>)) Medium = []
   \<and> fst (addWord emptyEnricher ''Apfel'' ''a fruit'' None) = True
   \<and> enrichedWords (snd (addWord emptyEnricher ''Apfel'' ''a fruit'' None)) Easy
       = [\<lparr>word = ''apfel'', hint = ''a fruit''\<rparr>]
   \<and> redisWords (snd (addWord emptyEnricher ''Apfel'' ''a fruit'' None)) Easy
       = [(''apfel'', ''a fruit'')]
   \<and> fst (addWord (snd (addWord emptyEnricher ''Apfel'' ''a fruit'' None)) ''apfel '' ''again'' None)
       = False"
  by code_simp

subsection \<open>Enrichment\<close>

lemma uniquePool_pushWord:
  assumes "uniquePool s"
      and "\<forall>q \<in> set (allWords s). toLowerCase (word e) \<noteq> toLowerCase (word q)"
  shows "uniquePool (pushWord s d e)"
  using assms by (cases d) (auto simp: uniquePool_def allWords_def pushWord_def)

lemma enrichStep_skip:
  "list_ex (\<lambda>w. toLowerCase (word w) = toLowerCase (word e)) (allWords s)
   \<Longrightarrow> enrichStep cl (s, byd, k) e = (s, byd, k)"
  by (simp add: enrichStep_def)

lemma enrichStep_push:
  "\<not> list_ex (\<lambda>w. toLowerCase (word w) = toLowerCase (word e)) (allWords s)
   \<Longrightarrow> enrichStep cl (s, byd, k) e
       = (pushWord s (cl (word e)) e, byd(cl (word e) := byd (cl (word e)) @ [e]), k + 1)"
  by (simp add: enrichStep_def Let_def)

lemma enrichLoop:
  "\<exists>f s1 byd1.
      foldl (enrichStep cl) (s, byd, k) es
        = (s1, byd1, k + length (f Easy) + length (f Medium) + length (f Hard))
    \<and> (\<forall>d. enrichedWords s1 d = enrichedWords s d @ f d)
    \<and> (\<forall>d. byd1 d = byd d @ f d)
    \<and> (\<forall>d. \<forall>e \<in> set (f d). \<forall>q \<in> set (allWords s).
          toLowerCase (word e) \<noteq> toLowerCase (word q))
    \<and> (uniquePool s \<longrightarrow> uniquePool s1)
    \<and> redisWords s1 = redisWords s \<and> isInitialized s1 = isInitialized s"
proof (induction es arbitrary: s byd k)
  case Nil
  show ?case
    by (rule exI [where x = "\<lambda>_. []"]) simp
next
  case (Cons e es)
  show ?case
  proof (cases "list_ex (\<lambda>w. toLowerCase (word w) = toLowerCase (word e)) (allWords s)")
    case True
    then show ?thesis using Cons.IH [of s byd k] by (simp add: enrichStep_skip)
  next
    case False
    let ?d = "cl (word e)"
    let ?s = "pushWord s ?d e"
    let ?b = "byd(?d := byd ?d @ [e])"
    obtain f s1 byd1 where
      IH: "foldl (enrichStep cl) (?s, ?b, k + 1) es
             = (s1, byd1, k + 1 + length (f Easy) + length (f Medium) + length (f Hard))"
          "\<forall>d. enrichedWords s1 d = enrichedWords ?s d @ f d"
          "\<forall>d. byd1 d = ?b d @ f d"
          "\<forall>d. \<forall>x \<in> set (f d). \<forall>q \<in> set (allWords ?s).
              toLowerCase (word x) \<noteq> toLowerCase (word q)"
          "uniquePool ?s \<longrightarrow> uniquePool s1"
          "redisWords s1 = redisWords ?s" "isInitialized s1 = isInitialized ?s"
      using Cons.IH [of ?s ?b "k + 1"] by blast
    define g where "g = (\<lambda>d. (if d = ?d then [e] else []) @ f d)"
    have fresh: "\<forall>q \<in> set (allWords s). toLowerCase (word e) \<noteq> toLowerCase (word q)"
      using False by (auto simp: list_ex_iff)
    have len: "length (g Easy) + length (g Medium) + length (g Hard)
        = 1 + length (f Easy) + length (f Medium) + length (f Hard)"
      by (cases ?d) (simp_all add: g_def)
    have 1: "foldl (enrichStep cl) (s, byd, k) (e # es)
        = (s1, byd1, k + length (g Easy) + length (g Medium) + length (g Hard))"
      using False IH(1) len by (simp add: enrichStep_push)
    have 2: "\<forall>d. enrichedWords s1 d = enrichedWords s d @ g d"
      using IH(2) by (simp add: g_def pushWord_fields)
    have 3: "\<forall>d. byd1 d = byd d @ g d"
      using IH(3) by (simp add: g_def)
    have 4: "\<forall>d. \<forall>x \<in> set (g d). \<forall>q \<in> set (allWords s).
          toLowerCase (word x) \<noteq> toLowerCase (word q)"
      using IH(4) fresh by (auto simp: g_def allWords_pushWord)
    have 5: "uniquePool s \<longrightarrow> uniquePool s1"
      using IH(5) fresh uniquePool_pushWord by blast
    have 6: "redisWords s1 = redisWords s" "isInitialized s1 = isInitialized s"
      using IH(6,7) by (simp_all add: pushWord_fields)
    show ?thesis using 1 2 3 4 5 6 by blast
  qed
qed

lemma persistByDifficulty_fields:
  "enrichedWords (persistByDifficulty s byd) = enrichedWords s"
  "isInitialized (persistByDifficulty s byd) = isInitialized s"
  by (simp_all add: persistByDifficulty_def saveToRedis_fields)

lemma enrichmentOk_loop:
  assumes "r = (case foldl (enrichStep cl) (s0, (\<lambda>_. []), 0) es of
                  (s1, byd, added) \<Rightarrow> (added, persistByDifficulty s1 byd))"
  shows "enrichmentOk s0 r \<and> isInitialized (snd r) = isInitialized s0"
proof -
  obtain f s1 byd1 where
    L: "foldl (enrichStep cl) (s0, (\<lambda>_. []), 0) es
             = (s1, byd1, 0 + length (f Easy) + length (f Medium) + length (f Hard))"
          "\<forall>d. enrichedWords s1 d = enrichedWords s0 d @ f d"
          "\<forall>d. \<forall>x \<in> set (f d). \<forall>q \<in> set (allWords s0).
              toLowerCase (word x) \<noteq> toLowerCase (word q)"
          "uniquePool s0 \<longrightarrow> uniquePool s1"
          "isInitialized s1 = isInitialized s0"
    using enrichLoop [of cl s0 "\<lambda>_. []" 0 es] by blast
  have r: "r = (length (f Easy) + length (f Medium) + length (f Hard), persistByDifficulty s1 byd1)"
    using assms L(1) by simp
  have e: "enrichedWords (snd r) = enrichedWords s1"
    by (simp add: r persistByDifficulty_fields)
  have a: "appended s0 (snd r) = f Easy @ f Medium @ f Hard"
    by (simp add: appended_def e L(2))
  have u: "uniquePool (snd r) = uniquePool s1"
    by (simp add: uniquePool_def allWords_def e)
  have "enrichmentOk s0 r"
    unfolding enrichmentOk_def a e u using L(2,3,4) by (auto simp: r)
  moreover have "isInitialized (snd r) = isInitialized s0"
    by (simp add: r persistByDifficulty_fields L(5))
  ultimately show ?thesis by blast
qed

text \<open>
  C7: for every batch of candidate words, both enrichment operations
  (\<open>enrichWithRandomGermanWords\<close> and \<open>searchAndAddWords\<close>) keep the entries of the
  pool in place, append no word that the pool already holds in any tier when case is ignored,
  and so preserve the invariant that no word occurs twice across the tiers; the number they
  return is the number of entries appended across the three tiers.
\<close>

theorem enrichment_unique_and_counted:
  "enrichmentOk (initialize s) (enrichWithRandomGermanWords s draw cnt)
   \<and> enrichmentOk (initialize s) (searchAndAddWords s searchWord shuffle searchTerm cnt2)"
proof
  show "enrichmentOk (initialize s) (enrichWithRandomGermanWords s draw cnt)"
    by (rule enrichmentOk_loop [THEN conjunct1]) (simp add: enrichWithRandomGermanWords_def Let_def)
  show "enrichmentOk (initialize s) (searchAndAddWords s searchWord shuffle searchTerm cnt2)"
    by (rule enrichmentOk_loop [THEN conjunct1]) (simp add: searchAndAddWords_def Let_def)
qed

theorem enrichment_unique_and_counted_witness:
  "fst (enrichWithRandomGermanWords (snd (addWord emptyEnricher ''Haus'' ''a building'' None))
          \<lparr>drawCategory = ''animals'', drawLength = 5,
           drawWords = [''Hund'', ''HAUS'', ''katze '', ''hund'', ''ab'', ''Elefanten'']\<rparr> 6) = 3
   \<and> map word (appended (snd (addWord emptyEnricher ''Haus'' ''a building'' None))
        (snd (enrichWithRandomGermanWords (snd (addWord emptyEnricher ''Haus'' ''a building'' None))
          \<lparr>drawCategory = ''animals'', drawLength = 5,
           drawWords = [''Hund'', ''HAUS'', ''katze '', ''hund'', ''ab'', ''Elefanten'']\<rparr> 6)))
       = [''hund'', ''katze'', ''elefanten'']
   \<and> uniquePool (snd (addWord emptyEnricher ''Haus'' ''a building'' None))
   \<and> uniquePool
        (snd (enrichWithRandomGermanWords (snd (addWord emptyEnricher ''Haus'' ''a building'' None))
          \<lparr>drawCategory = ''animals'', drawLength = 5,
           drawWords = [''Hund'', ''HAUS'', ''katze '', ''hund'', ''ab'', ''Elefanten'']\<rparr> 6))"
proof -
  let ?s = "snd (addWord emptyEnricher ''Haus'' ''a building'' None)"
  let ?draw = "\<lparr>drawCategory = ''animals'', drawLength = 5,
           drawWords = [''Hund'', ''HAUS'', ''katze '', ''hund'', ''ab'', ''Elefanten'']\<rparr>"
  have i: "initialize ?s = ?s"
    using addWord_initialized by (rule initialize_id)
  have n: "fst (enrichWithRandomGermanWords ?s ?draw 6) = 3" by code_simp
  have a: "map word (appended ?s (snd (enrichWithRandomGermanWords ?s ?draw 6)))
       = [''hund'', ''katze'', ''elefanten'']" by code_simp
  have u: "uniquePool ?s" by code_simp
  have "enrichmentOk ?s (enrichWithRandomGermanWords ?s ?draw 6)"
    using enrichment_unique_and_counted [where s = ?s and draw = ?draw and cnt = 6
        and searchWord = "\<lambda>_ _. None" and shuffle = "\<lambda>ws. ws" and searchTerm = "[]"
        and ?cnt2.0 = 0]
    unfolding i by blast
  then have "uniquePool (snd (enrichWithRandomGermanWords ?s ?draw 6))"
    using u unfolding enrichmentOk_def by blast
  then show ?thesis using n a u by blast
qed

section \<open>Word selection by index\<close>

lemma enrich_initialized:
  "isInitialized (snd (enrichWithRandomGermanWords s draw cnt))"
proof -
  have "isInitialized (snd (enrichWithRandomGermanWords s draw cnt)) = isInitialized (initialize s)"
    by (rule enrichmentOk_loop [THEN conjunct2]) (simp add: enrichWithRandomGermanWords_def Let_def)
  then show ?thesis by (simp add: initialize_initialized)
qed

lemma getWords_initialized: "isInitialized s \<Longrightarrow> getWords s d = (enrichedWords s d, s)"
  by (simp add: getWords_def initialize_id)

lemma jsRem_index:
  assumes "0 \<le> idx" and "ws \<noteq> []"
  shows "0 \<le> jsRem idx (int (length ws))"
    and "jsRem idx (int (length ws)) < int (length ws)"
    and "nat (jsRem idx (int (length ws))) = nat idx mod length ws"
proof -
  have l: "0 < int (length ws)" using assms(2) by simp
  have e: "jsRem idx (int (length ws)) = idx mod int (length ws)"
    using assms(1) l by (rule jsRem_nat)
  show "0 \<le> jsRem idx (int (length ws))" unfolding e using l by simp
  show "jsRem idx (int (length ws)) < int (length ws)" unfolding e using l by simp
  show "nat (jsRem idx (int (length ws))) = nat idx mod length ws"
    unfolding e using assms(1) by (simp add: nat_mod_distrib)
qed

lemma germanWords_length: "length (germanWords d) = 10"
  by (cases d) (simp_all add: germanWords_def)

text \<open>
  C9: for every tier and every non-negative integer index, \<open>getWordByIndex\<close> does not
  throw when the pool of the tier is not empty: it returns the entry at the index modulo the
  size of the pool. When the pool is empty it tries one enrichment; it then selects from the
  pool in the same way when the enrichment filled it, and fails with the error
  \<open>No words available\<close> when the pool is still empty, without computing a remainder by
  zero. The variant over the fixed word list has ten words in every tier and returns the
  entry at the index modulo ten.
\<close>

theorem getWordByIndex_spec:
  assumes "0 \<le> idx"
  shows "(let s0 = initialize s; pool = enrichedWords s0 d;
              s1 = snd (enrichWithRandomGermanWords s0 draw 6); pool1 = enrichedWords s1 d
          in (pool \<noteq> [] \<longrightarrow>
                getWordByIndex s draw d idx = (Inr (Some (pool ! (nat idx mod length pool))), s0))
           \<and> (pool = [] \<and> pool1 \<noteq> [] \<longrightarrow>
                getWordByIndex s draw d idx = (Inr (Some (pool1 ! (nat idx mod length pool1))), s1))
           \<and> (pool = [] \<and> pool1 = [] \<longrightarrow>
                getWordByIndex s draw d idx = (Inl (NoWordsAvailable d), s1)))
         \<and> germanWords d \<noteq> []
         \<and> getWordByIndex_static d idx = Some (germanWords d ! (nat idx mod length (germanWords d)))"
proof -
  let ?s0 = "initialize s"
  let ?pool = "enrichedWords ?s0 d"
  let ?s1 = "snd (enrichWithRandomGermanWords ?s0 draw 6)"
  let ?pool1 = "enrichedWords ?s1 d"
  have g0: "getWords s d = (?pool, ?s0)" by (simp add: getWords_def Let_def)
  have g1: "getWords ?s1 d = (?pool1, ?s1)"
    using enrich_initialized by (rule getWords_initialized)
  have a: "?pool \<noteq> [] \<longrightarrow>
        getWordByIndex s draw d idx = (Inr (Some (?pool ! (nat idx mod length ?pool))), ?s0)"
    using jsRem_index [OF assms, of ?pool] by (simp add: getWordByIndex_def g0 Let_def)
  have b: "?pool = [] \<and> ?pool1 \<noteq> [] \<longrightarrow>
        getWordByIndex s draw d idx = (Inr (Some (?pool1 ! (nat idx mod length ?pool1))), ?s1)"
    using jsRem_index [OF assms, of ?pool1] by (simp add: getWordByIndex_def g0 g1 Let_def)
  have c: "?pool = [] \<and> ?pool1 = [] \<longrightarrow>
        getWordByIndex s draw d idx = (Inl (NoWordsAvailable d), ?s1)"
    by (simp add: getWordByIndex_def g0 g1 Let_def)
  have ne: "germanWords d \<noteq> []" using germanWords_length [of d] by auto
  have st: "getWordByIndex_static d idx
      = Some (germanWords d ! (nat idx mod length (germanWords d)))"
    using jsRem_index [OF assms ne] by (simp add: getWordByIndex_static_def Let_def)
  show ?thesis unfolding Let_def using a b c ne st by blast
qed

theorem getWordByIndex_spec_witness:
  "(0::int) \<le> 1326
   \<and> fst (getWordByIndex (snd (addWord emptyEnricher ''Haus'' ''a building'' None))
        \<lparr>drawCategory = ''animals'', drawLength = 5, drawWords = []\<rparr> Easy 1326)
      = Inr (Some \<lparr>word = ''haus'', hint = ''a building''\<rparr>)
   \<and> fst (getWordByIndex emptyEnricher
        \<lparr>drawCategory = ''animals'', drawLength = 5, drawWords = []\<rparr> Hard 1326)
      = Inl (NoWordsAvailable Hard)
   \<and> fst (getWordByIndex emptyEnricher
        \<lparr>drawCategory = ''animals'', drawLength = 5, drawWords = [''Hund'', ''Katze'']\<rparr> Easy 1327)
      = Inr (Some \<lparr>word = ''katze'',
                     hint = ''Category: animals'' @ [CHR 0x20, CHR 0xB7, CHR 0x20] @ ''5 letters''\<rparr>)
   \<and> map_option word (getWordByIndex_static Medium 1326)
      = Some (''fr'' @ [CHR 0xFC] @ ''hst'' @ [CHR 0xFC] @ ''ck'')"
proof -
  have z: "(0::int) \<le> 1326" "(0::int) \<le> 1327" by simp_all
  let ?s = "snd (addWord emptyEnricher ''Haus'' ''a building'' None)"
  let ?d0 = "\<lparr>drawCategory = ''animals'', drawLength = 5, drawWords = []\<rparr>"
  let ?d2 = "\<lparr>drawCategory = ''animals'', drawLength = 5, drawWords = [''Hund'', ''Katze'']\<rparr>"
  let ?haus = "\<lparr>word = ''haus'', hint = ''a building''\<rparr>"
  let ?hund = "\<lparr>word = ''hund'',
      hint = ''Category: animals'' @ [CHR 0x20, CHR 0xB7, CHR 0x20] @ ''5 letters''\<rparr>"
  let ?katze = "\<lparr>word = ''katze'',
      hint = ''Category: animals'' @ [CHR 0x20, CHR 0xB7, CHR 0x20] @ ''5 letters''\<rparr>"
  have p1: "enrichedWords (initialize ?s) Easy = [?haus]"
    by code_simp
  have p2: "enrichedWords (initialize emptyEnricher) Hard = []"
     "enrichedWords (snd (enrichWithRandomGermanWords (initialize emptyEnricher) ?d0 6)) Hard = []"
    by code_simp+
  have p3: "enrichedWords (initialize emptyEnricher) Easy = []"
     "enrichedWords (snd (enrichWithRandomGermanWords (initialize emptyEnricher) ?d2 6)) Easy
        = [?hund, ?katze]"
    by code_simp+
  have p4: "map word (germanWords Medium) ! 6 = ''fr'' @ [CHR 0xFC] @ ''hst'' @ [CHR 0xFC] @ ''ck''"
    by code_simp
  have "getWordByIndex ?s ?d0 Easy 1326
      = (Inr (Some ([?haus] ! (nat 1326 mod length [?haus]))), initialize ?s)"
    using getWordByIndex_spec [OF z(1), where s = ?s and draw = ?d0 and d = Easy]
    unfolding Let_def p1 by blast
  then have a: "fst (getWordByIndex ?s ?d0 Easy 1326) = Inr (Some ?haus)" by simp
  have "getWordByIndex emptyEnricher ?d0 Hard 1326
      = (Inl (NoWordsAvailable Hard),
         snd (enrichWithRandomGermanWords (initialize emptyEnricher) ?d0 6))"
    using getWordByIndex_spec [OF z(1), where s = emptyEnricher and draw = ?d0 and d = Hard]
    unfolding Let_def p2 by blast
  then have b: "fst (getWordByIndex emptyEnricher ?d0 Hard 1326) = Inl (NoWordsAvailable Hard)"
    by simp
  have "getWordByIndex emptyEnricher ?d2 Easy 1327
      = (Inr (Some ([?hund, ?katze] ! (nat 1327 mod length [?hund, ?katze]))),
         snd (enrichWithRandomGermanWords (initialize emptyEnricher) ?d2 6))"
    using getWordByIndex_spec [OF z(2), where s = emptyEnricher and draw = ?d2 and d = Easy]
    unfolding Let_def p3 by blast
  moreover have "(1327::nat) mod Suc (Suc 0) = 1" by (simp flip: numeral_2_eq_2)
  ultimately have c: "fst (getWordByIndex emptyEnricher ?d2 Easy 1327) = Inr (Some ?katze)"
    by simp
  have "getWordByIndex_static Medium 1326
      = Some (germanWords Medium ! (nat 1326 mod length (germanWords Medium)))"
    using getWordByIndex_spec [OF z(1), where s = emptyEnricher and draw = ?d0 and d = Medium]
    by blast
  then have d: "map_option word (getWordByIndex_static Medium 1326)
      = Some (''fr'' @ [CHR 0xFC] @ ''hst'' @ [CHR 0xFC] @ ''ck'')"
    using p4 by (simp add: germanWords_length)
  show ?thesis using z(1) a b c d by blast
qed

end
